theory Spec2Isabelle
  imports Complex_Main "HOL-Library.Multiset"
begin

section \<open>The landmarker.io viewport (src/js/app/view/viewport/index.js)\<close>

text \<open>
  The viewport is a Backbone view: one mutable object whose methods read and write its
  fields. The model below is a record of those fields, passed through every method and
  returned updated. JavaScript numbers are idealised as real numbers (finite doubles
  without rounding); the one operation of the source that leaves the reals, division by
  a divisor that may be zero, returns a value of its own type. THREE.js is an external
  library: the small vector operations the viewport calls are written out, the
  operations on a scene node's orientation are kept as the sequence of calls made on the
  node, and the camera and ray-casting routines are parameters.
\<close>

subsection \<open>Numbers and vectors\<close>

datatype jsnum = Finite real | PosInfinity | NegInfinity | NaN

text \<open>JavaScript's \<open>a / b\<close> on finite numbers: a zero divisor gives an infinity or NaN.\<close>

definition js_div :: "real \<Rightarrow> real \<Rightarrow> jsnum" where
  "js_div a b =
     (if b \<noteq> 0 then Finite (a / b)
      else if a = 0 then NaN
      else if 0 < a then PosInfinity
      else NegInfinity)"

text \<open>
  The other arithmetic on such values follows IEEE 754 on the infinities and NaN.
\<close>

fun js_neg :: "jsnum \<Rightarrow> jsnum" where
  "js_neg (Finite a) = Finite (- a)"
| "js_neg PosInfinity = NegInfinity"
| "js_neg NegInfinity = PosInfinity"
| "js_neg NaN = NaN"

fun js_add :: "jsnum \<Rightarrow> jsnum \<Rightarrow> jsnum" where
  "js_add (Finite a) (Finite b) = Finite (a + b)"
| "js_add NaN _ = NaN"
| "js_add _ NaN = NaN"
| "js_add PosInfinity NegInfinity = NaN"
| "js_add NegInfinity PosInfinity = NaN"
| "js_add PosInfinity _ = PosInfinity"
| "js_add NegInfinity _ = NegInfinity"
| "js_add _ PosInfinity = PosInfinity"
| "js_add _ NegInfinity = NegInfinity"

definition js_sub :: "jsnum \<Rightarrow> jsnum \<Rightarrow> jsnum" where
  "js_sub a b = js_add a (js_neg b)"

definition js_sign_times :: "real \<Rightarrow> jsnum \<Rightarrow> jsnum" where
  "js_sign_times a i = (if a = 0 then NaN else if 0 < a then i else js_neg i)"

fun js_mul :: "jsnum \<Rightarrow> jsnum \<Rightarrow> jsnum" where
  "js_mul (Finite a) (Finite b) = Finite (a * b)"
| "js_mul NaN _ = NaN"
| "js_mul _ NaN = NaN"
| "js_mul (Finite a) i = js_sign_times a i"
| "js_mul i (Finite b) = js_sign_times b i"
| "js_mul PosInfinity i = i"
| "js_mul NegInfinity i = js_neg i"

datatype 'a Vector3 = Vector3 (vx: 'a) (vy: 'a) (vz: 'a)

type_synonym vec = "real Vector3"

definition addVectors :: "vec \<Rightarrow> vec \<Rightarrow> vec" where
  "addVectors a b = Vector3 (vx a + vx b) (vy a + vy b) (vz a + vz b)"

definition sub :: "vec \<Rightarrow> vec \<Rightarrow> vec" where
  "sub a b = Vector3 (vx a - vx b) (vy a - vy b) (vz a - vz b)"

definition dot :: "vec \<Rightarrow> vec \<Rightarrow> real" where
  "dot a b = vx a * vx b + vy a * vy b + vz a * vz b"

definition multiplyScalar :: "vec \<Rightarrow> real \<Rightarrow> vec" where
  "multiplyScalar a k = Vector3 (vx a * k) (vy a * k) (vz a * k)"

definition lengthSq :: "vec \<Rightarrow> real" where
  "lengthSq a = vx a * vx a + vy a * vy a + vz a * vz a"

definition length_v :: "vec \<Rightarrow> real" where
  "length_v a = sqrt (lengthSq a)"

text \<open>THREE's \<open>divideScalar\<close> maps every vector to the zero vector when the scalar is zero.\<close>

definition divideScalar :: "vec \<Rightarrow> real \<Rightarrow> vec" where
  "divideScalar a k = (if k \<noteq> 0 then multiplyScalar a (1 / k) else Vector3 0 0 0)"

definition normalize :: "vec \<Rightarrow> vec" where
  "normalize a = divideScalar a (length_v a)"

definition distanceTo :: "vec \<Rightarrow> vec \<Rightarrow> real" where
  "distanceTo a b = sqrt (lengthSq (sub a b))"

subsection \<open>The canonical axes and \<open>mainDirection\<close>\<close>

definition COORDS :: "vec list" where
  "COORDS = [Vector3 1 0 0, Vector3 (-1) 0 0,
             Vector3 0 1 0, Vector3 0 (-1) 0,
             Vector3 0 0 1, Vector3 0 0 (-1)]"

definition ORIGINAL_UP_VECTOR :: vec where
  "ORIGINAL_UP_VECTOR = COORDS ! 2"

text \<open>
  One round of the \<open>forEach\<close> of \<open>mainDirection\<close>: the pair is \<open>(dist, main)\<close> of the source, with
  \<open>main\<close> undefined (\<open>None\<close>) until the first round has run.
\<close>

fun mainDirection_step :: "vec \<Rightarrow> vec \<Rightarrow> real \<times> vec option \<Rightarrow> real \<times> vec option" where
  "mainDirection_step v c (dst, main) =
     (let d = distanceTo v c
      in if d < dst \<or> main = None then (d, Some c) else (dst, main))"

definition mainDirection :: "vec \<Rightarrow> vec option" where
  "mainDirection v = snd (fold (mainDirection_step v) COORDS (0, None))"

subsection \<open>Scene nodes, the renderer and the viewport's fields\<close>

text \<open>
  The orientation of a THREE.Object3D is changed only through \<open>lookAt\<close> and
  \<open>rotateOnAxis\<close>; it is recorded as the calls that produced it. \<open>lookAt\<close> overwrites
  the orientation from the target, the node's position and its up vector;
  \<open>rotateOnAxis\<close> composes a rotation onto the current one.
\<close>

datatype orientation =
    Unrotated
  | LookAt vec vec vec
  | RotateOnAxis orientation vec real

record node =
  position :: vec
  scale :: "jsnum Vector3"
  up :: vec
  quaternion :: orientation

definition Object3D :: node where
  "Object3D = \<lparr> position = Vector3 0 0 0,
               scale = Vector3 (Finite 1) (Finite 1) (Finite 1),
               up = Vector3 0 1 0,
               quaternion = Unrotated \<rparr>"

definition rotateOnAxis :: "node \<Rightarrow> vec \<Rightarrow> real \<Rightarrow> node" where
  "rotateOnAxis n axis angle = n\<lparr> quaternion := RotateOnAxis (quaternion n) axis angle \<rparr>"

definition lookAt :: "node \<Rightarrow> vec \<Rightarrow> node" where
  "lookAt n target = n\<lparr> quaternion := LookAt target (position n) (up n) \<rparr>"

datatype camera_ref = S_pCam | S_oCam | S_oCamZoom

datatype scene_ref = Scene | SceneHelpers

text \<open>The calls made on the WebGL renderer, in order.\<close>

datatype gl =
    SetViewport real real real real
  | SetScissor real real real real
  | EnableScissorTest bool
  | Clear
  | ClearDepth
  | Render scene_ref camera_ref
  | SetClearColor nat real

definition CLEAR_COLOUR :: nat where
  "CLEAR_COLOUR = 0xEEEEEE"

definition CLEAR_COLOUR_PIP :: nat where
  "CLEAR_COLOUR_PIP = 0xCCCCCC"

definition PIP_WIDTH :: real where
  "PIP_WIDTH = 300"

definition PIP_HEIGHT :: real where
  "PIP_HEIGHT = 300"

record boundingSphere =
  radius :: real
  center :: vec

text \<open>
  A mesh is a THREE object compared by reference; \<open>ident\<close> stands for the reference.
\<close>

record mesh3d =
  ident :: nat
  isBufferGeometry :: bool
  geometry_boundingSphere :: boundingSphere

record meshPayload =
  payload_mesh :: mesh3d
  payload_up :: vec
  payload_front :: vec

record ctxBox_t =
  minX :: real
  minY :: real
  maxX :: real
  maxY :: real

datatype ctx2d = ClearRect real real real real | StrokeRect real real real real

datatype display = DisplayNone | DisplayUnset

record ray_t =
  origin :: vec
  direction :: vec

datatype point = Point (px: real) (py: real)

record intersection =
  distance :: real
  object :: nat

text \<open>
  What \<open>getIntersects\<close> is asked to hit: \<open>null\<close>, one object, or an array of objects,
  each object named by its reference.
\<close>

datatype target = Null | Object3D_ref nat | Array "nat list"

record symbol_t =
  symbol_ref :: nat
  symbol_position :: vec

record lmView_t =
  symbol :: "symbol_t option"

text \<open>
  The routines of THREE.js and of the octree module that the picking code calls, with
  the cameras and scene matrices as they stand at the call: \<open>unproject\<close> and
  \<open>project\<close> are \<open>vector.unproject(camera)\<close> and \<open>vector.project(camera)\<close>,
  \<open>camera_position\<close> is \<open>camera.position\<close>, \<open>transformDirection v c\<close> is
  \<open>v.transformDirection(c.matrixWorld)\<close>, \<open>localToWorld\<close> is that of
  \<open>s_meshAndLms\<close>.
\<close>

record three =
  unproject :: "camera_ref \<Rightarrow> jsnum Vector3 \<Rightarrow> vec"
  project :: "camera_ref \<Rightarrow> vec \<Rightarrow> vec"
  camera_position :: "camera_ref \<Rightarrow> vec"
  transformDirection :: "vec \<Rightarrow> camera_ref \<Rightarrow> vec"
  localToWorld :: "vec \<Rightarrow> vec"
  intersetMesh :: "ray_t \<Rightarrow> mesh3d \<Rightarrow> nat \<Rightarrow> intersection list"
  intersectObjects :: "ray_t \<Rightarrow> nat list \<Rightarrow> intersection list"
  intersectObject :: "ray_t \<Rightarrow> nat \<Rightarrow> intersection list"

text \<open>
  The fields of the viewport. \<open>upVector\<close> is \<open>this._upVector\<close>: in the source a
  reference to one of the six objects of \<open>COORDS\<close>, compared with \<open>===\<close>; the six
  differ pairwise in value and the field only ever holds one of them, so the reference
  is identified with the vector. \<open>s_mesh\<close> holds the children of the node of that
  name; \<open>octree\<close> names the mesh the octree was built for.
  \<open>s_camera\<close> is a reference to one of the cameras.
  \<open>renderer\<close> is \<open>None\<close> until the renderer is created, then the calls made on it.
  \<open>model_mesh\<close>, \<open>model_connectivityOn\<close>, \<open>containerWidth\<close> and
  \<open>containerHeight\<close> are what the collaborators answer when asked
  (\<open>this.model.mesh()\<close>, \<open>this.model.isConnectivityOn()\<close>, the container's
  \<open>offsetWidth\<close> and \<open>offsetHeight\<close>). \<open>changePip_listeners\<close> counts the handlers
  this view holds on the camera controller's \<open>changePip\<close> event.
  \<open>ATOMIC_OPERATION\<close> is the depth counter of the application-wide atomic tracker.
\<close>

record viewport =
  upVector :: vec
  s_scaleRotate :: node
  s_translate :: node
  s_h_scaleRotate :: node
  s_h_translate :: node
  s_mesh :: "mesh3d list"
  meshScale :: real
  mesh :: "mesh3d option"
  octree :: "nat option"
  s_camera :: camera_ref
  renderer :: "gl list option"
  showConnectivity :: bool
  pipCanvas_display :: display
  changePip_listeners :: nat
  ctxBox :: ctxBox_t
  ctx :: "ctx2d list"
  ray :: ray_t
  model_mesh :: "meshPayload option"
  model_connectivityOn :: bool
  containerWidth :: nat
  containerHeight :: nat
  ATOMIC_OPERATION :: int

datatype error = TypeError

text \<open>How a method ends: it returns, or it throws; the fields are as it left them.\<close>

datatype 'a outcome = Returns 'a viewport | Throws error viewport

subsection \<open>Rendering: \<open>pipBounds\<close> and \<open>update\<close>\<close>

definition width :: "viewport \<Rightarrow> real" where
  "width vp = real (containerWidth vp)"

definition height :: "viewport \<Rightarrow> real" where
  "height vp = real (containerHeight vp)"

record bounds =
  bx :: real
  by' :: real
  bwidth :: real
  bheight :: real


definition pipBounds :: "viewport \<Rightarrow> bounds" where
  "pipBounds vp =
     (let w = width vp; h = height vp;
          maxX' = w; maxY' = h;
          minX' = maxX' - PIP_WIDTH;
          minY' = maxY' - PIP_HEIGHT
      in \<lparr> bx = minX', by' = minY', bwidth = PIP_WIDTH, bheight = PIP_HEIGHT \<rparr>)"

text \<open>
  Modelled from the spec: the atomic tracker (\<open>model/atomic\<close>) is not among the
  sources. Its counter is a depth, "greater than zero means update suppressed", and a
  batch is finished when the depth has reached zero.
\<close>

definition atomicOperationUnderway :: "viewport \<Rightarrow> bool" where
  "atomicOperationUnderway vp = (0 < ATOMIC_OPERATION vp)"

definition atomicOperationFinished :: "viewport \<Rightarrow> bool" where
  "atomicOperationFinished vp = (ATOMIC_OPERATION vp = 0)"

text \<open>Step 2 of \<open>update\<close>: the picture-in-picture pass, drawn with the zoom camera.\<close>

definition pip_pass :: "viewport \<Rightarrow> gl list" where
  "pip_pass vp =
     (let b = pipBounds vp
      in [SetClearColor CLEAR_COLOUR_PIP 1,
          SetViewport (bx b) (by' b) (bwidth b) (bheight b),
          SetScissor (bx b) (by' b) (bwidth b) (bheight b),
          EnableScissorTest True,
          Clear,
          Render Scene S_oCamZoom]
         @ (if showConnectivity vp then [ClearDepth, Render SceneHelpers S_oCamZoom] else [])
         @ [SetClearColor CLEAR_COLOUR 1])"

text \<open>The renderer calls of one pass of \<open>update\<close> that is not cut short.\<close>

definition frame :: "viewport \<Rightarrow> gl list" where
  "frame vp =
     (let w = width vp; h = height vp
      in [SetViewport 0 0 w h,
          SetScissor 0 0 w h,
          EnableScissorTest True,
          Clear,
          Render Scene (s_camera vp)]
         @ (if showConnectivity vp then [ClearDepth, Render SceneHelpers (s_camera vp)] else [])
         @ (if s_camera vp = S_oCam then pip_pass vp else []))"

definition update :: "viewport \<Rightarrow> viewport" where
  "update vp =
     (case renderer vp of
        None \<Rightarrow> vp
      | Some calls \<Rightarrow>
          if atomicOperationUnderway vp then vp
          else vp\<lparr> renderer := Some (calls @ frame vp) \<rparr>)"

definition batchHandler :: "viewport \<Rightarrow> viewport" where
  "batchHandler dispatcher = (if atomicOperationFinished dispatcher then update dispatcher else dispatcher)"

subsection \<open>The atomic-operation gate\<close>

text \<open>
  Modelled from the spec: the tracker's operations are not among the sources. An atomic
  operation increments the depth counter, runs the operation, then decrements on every
  exit path. The viewport listens to the tracker's \<open>change:ATOMIC_OPERATION\<close>
  notification with \<open>batchHandler\<close>, so every change of the counter runs the handler.
\<close>

definition startAtomicOperation :: "viewport \<Rightarrow> viewport" where
  "startAtomicOperation vp = batchHandler (vp\<lparr> ATOMIC_OPERATION := ATOMIC_OPERATION vp + 1 \<rparr>)"

definition endAtomicOperation :: "viewport \<Rightarrow> viewport" where
  "endAtomicOperation vp = batchHandler (vp\<lparr> ATOMIC_OPERATION := ATOMIC_OPERATION vp - 1 \<rparr>)"

definition atomicOperation :: "(viewport \<Rightarrow> 'a outcome) \<Rightarrow> viewport \<Rightarrow> 'a outcome" where
  "atomicOperation f vp =
     (case f (startAtomicOperation vp) of
        Returns r vp' \<Rightarrow> Returns r (endAtomicOperation vp')
      | Throws e vp' \<Rightarrow> Throws e (endAtomicOperation vp'))"

subsection \<open>\<open>pointUp\<close>\<close>

text \<open>
  The loop \<open>for (let i = 0; i < 5; i += 2)\<close> of \<open>pointUp\<close>: \<open>axis\<close> is undefined
  (\<open>None\<close>) before the first round, and the loop leaves at the first axis whose dot
  product with \<open>s\<close> is zero.
\<close>

function pointUp_loop :: "vec \<Rightarrow> nat \<Rightarrow> vec option \<Rightarrow> vec option" where
  "pointUp_loop s i axis =
     (if i < 5
      then (let axis' = COORDS ! i
            in if dot s axis' = 0 then Some axis' else pointUp_loop s (i + 2) (Some axis'))
      else axis)"
  by pat_completeness auto
termination
  by (relation "measure (\<lambda>(s, i, axis). 5 - i)") auto

text \<open>
  The function wrapped by \<open>atomic.atomicOperation\<close>. Reading a component of an
  undefined vector throws a TypeError: \<open>addVectors\<close> when \<open>mainDirection\<close> gave
  nothing, \<open>s.add(axis)\<close> and \<open>rotateOnAxis\<close> when the loop left \<open>axis\<close> undefined.
\<close>

definition pointUp_body :: "vec \<Rightarrow> viewport \<Rightarrow> unit outcome" where
  "pointUp_body v vp =
     (case mainDirection (normalize v) of
        None \<Rightarrow> Throws TypeError vp
      | Some newUpVector \<Rightarrow>
          if newUpVector = upVector vp then Returns () vp
          else
            (let s = addVectors newUpVector (upVector vp);
                 axis = pointUp_loop s 0 None
             in if length_v s = 0
                then (let angle = -1 * pi;
                          vp' = vp\<lparr> upVector := newUpVector \<rparr>
                      in case axis of
                           None \<Rightarrow> Throws TypeError vp'
                         | Some a \<Rightarrow>
                             Returns ()
                               (vp'\<lparr> s_scaleRotate := rotateOnAxis (s_scaleRotate vp') a angle,
                                     s_h_scaleRotate := rotateOnAxis (s_h_scaleRotate vp') a angle \<rparr>))
                else (case axis of
                        None \<Rightarrow> Throws TypeError vp
                      | Some a \<Rightarrow>
                          (let s' = addVectors s a;
                               multiplier = vx s' * vy s' * vz s';
                               angle = multiplier * pi / 2;
                               vp' = vp\<lparr> upVector := newUpVector \<rparr>
                           in Returns ()
                                (vp'\<lparr> s_scaleRotate := rotateOnAxis (s_scaleRotate vp') a angle,
                                      s_h_scaleRotate := rotateOnAxis (s_h_scaleRotate vp') a angle \<rparr>)))))"

definition pointUp :: "vec \<Rightarrow> viewport \<Rightarrow> unit outcome" where
  "pointUp v = atomicOperation (pointUp_body v)"

declare pointUp_loop.simps [simp del]

subsection \<open>\<open>changeMesh\<close>\<close>

text \<open>
  \<open>this.mesh\<close> is \<open>None\<close> when the source holds \<open>null\<close> there, or nothing yet: on the
  first call the source removes nothing and sets the two fields to \<open>null\<close>.
\<close>

definition removeMeshIfPresent :: "viewport \<Rightarrow> viewport" where
  "removeMeshIfPresent vp =
     (case mesh vp of
        None \<Rightarrow> vp
      | Some m \<Rightarrow> vp\<lparr> s_mesh := removeAll m (s_mesh vp), mesh := None, octree := None \<rparr>)"

text \<open>
  Modelled from the spec: the octree module (\<open>model/octree\<close>) is not among the sources.
  An octree is a spatial index built for one mesh; it is known here by the mesh it indexes.
\<close>

definition octreeForBufferGeometry :: "mesh3d \<Rightarrow> nat" where
  "octreeForBufferGeometry m = ident m"

text \<open>
  \<open>changeMesh\<close> first logs \<open>this.memoryString()\<close>, which reads
  \<open>this.renderer.info\<close>: a TypeError while there is no renderer.
\<close>

definition changeMesh :: "viewport \<Rightarrow> unit outcome" where
  "changeMesh vp =
     (case renderer vp of
        None \<Rightarrow> Throws TypeError vp
      | Some _ \<Rightarrow>
          (let vp = removeMeshIfPresent vp
           in case model_mesh vp of
                None \<Rightarrow> Returns () vp
              | Some meshPayload \<Rightarrow>
                  (let m = payload_mesh meshPayload;
                       up' = payload_up meshPayload;
                       front = payload_front meshPayload;
                       vp = vp\<lparr> mesh := Some m \<rparr>;
                       vp = (if isBufferGeometry m
                             then vp\<lparr> octree := Some (octreeForBufferGeometry m) \<rparr>
                             else vp);
                       vp = vp\<lparr> s_mesh := s_mesh vp @ [m] \<rparr>;
                       vp = vp\<lparr> meshScale := radius (geometry_boundingSphere m) \<rparr>;
                       s = js_div 1.0 (meshScale vp);
                       vp = vp\<lparr> s_scaleRotate := (s_scaleRotate vp)\<lparr> scale := Vector3 s s s \<rparr> \<rparr>;
                       vp = vp\<lparr> s_h_scaleRotate := (s_h_scaleRotate vp)\<lparr> scale := Vector3 s s s \<rparr> \<rparr>;
                       vp = vp\<lparr> s_scaleRotate := (s_scaleRotate vp)\<lparr> up := up' \<rparr> \<rparr>;
                       vp = vp\<lparr> s_h_scaleRotate := (s_h_scaleRotate vp)\<lparr> up := up' \<rparr> \<rparr>;
                       vp = vp\<lparr> s_scaleRotate := lookAt (s_scaleRotate vp) front \<rparr>;
                       vp = vp\<lparr> s_h_scaleRotate := lookAt (s_h_scaleRotate vp) front \<rparr>;
                       t = multiplyScalar (center (geometry_boundingSphere m)) (-1.0);
                       vp = vp\<lparr> s_translate := (s_translate vp)\<lparr> position := t \<rparr> \<rparr>;
                       vp = vp\<lparr> s_h_translate := (s_h_translate vp)\<lparr> position := t \<rparr> \<rparr>
                   in Returns () (update vp))))"

subsection \<open>The 2D canvas: \<open>updateCanvasBoundingBox\<close>, \<open>drawSelectionBox\<close>, \<open>clearCanvas\<close>\<close>

definition updateCanvasBoundingBox :: "point \<Rightarrow> viewport \<Rightarrow> viewport" where
  "updateCanvasBoundingBox p vp =
     vp\<lparr> ctxBox := \<lparr> minX = min (minX (ctxBox vp)) (px p),
                      minY = min (minY (ctxBox vp)) (py p),
                      maxX = max (maxX (ctxBox vp)) (px p),
                      maxY = max (maxY (ctxBox vp)) (py p) \<rparr> \<rparr>"

definition drawSelectionBox :: "point \<Rightarrow> point \<Rightarrow> viewport \<Rightarrow> viewport" where
  "drawSelectionBox mouseDown mousePosition vp =
     (let x = px mouseDown;
          y = py mouseDown;
          dx = px mousePosition - x;
          dy = py mousePosition - y;
          vp = vp\<lparr> ctx := ctx vp @ [StrokeRect x y dx dy] \<rparr>;
          vp = updateCanvasBoundingBox mouseDown vp
      in updateCanvasBoundingBox mousePosition vp)"

definition empty_ctxBox :: ctxBox_t where
  "empty_ctxBox = \<lparr> minX = 999999, minY = 999999, maxX = 0, maxY = 0 \<rparr>"

definition clearCanvas :: "viewport \<Rightarrow> viewport" where
  "clearCanvas vp =
     (let p = 3;
          minX' = max (real_of_int \<lfloor>minX (ctxBox vp)\<rfloor> - p) 0;
          minY' = max (real_of_int \<lfloor>minY (ctxBox vp)\<rfloor> - p) 0;
          maxX' = real_of_int \<lceil>maxX (ctxBox vp)\<rceil> + p;
          maxY' = real_of_int \<lceil>maxY (ctxBox vp)\<rceil> + p;
          width' = maxX' - minX';
          height' = maxY' - minY'
      in vp\<lparr> ctx := ctx vp @ [ClearRect minX' minY' width' height'],
              ctxBox := empty_ctxBox \<rparr>)"

subsection \<open>\<open>toggleCamera\<close> and \<open>updateConnectivityDisplay\<close>\<close>

text \<open>
  \<open>listenTo\<close> adds one handler for \<open>changePip\<close>; \<open>stopListening\<close> removes every
  handler this view holds for it. Setting \<open>style.display\<close> to \<open>null\<close> removes the
  inline \<open>display: none\<close>, which shows the canvas.
\<close>

definition toggleCamera :: "viewport \<Rightarrow> viewport" where
  "toggleCamera vp =
     (let currentlyPerspective = (s_camera vp = S_pCam);
          vp = (if currentlyPerspective
                then vp\<lparr> changePip_listeners := changePip_listeners vp + 1,
                         s_camera := S_oCam,
                         pipCanvas_display := DisplayUnset \<rparr>
                else vp\<lparr> changePip_listeners := 0,
                         s_camera := S_pCam,
                         pipCanvas_display := DisplayNone \<rparr>);
          vp = clearCanvas vp
      in update vp)"

definition updateConnectivityDisplay :: "viewport \<Rightarrow> unit outcome" where
  "updateConnectivityDisplay =
     atomicOperation (\<lambda>vp. Returns () (vp\<lparr> showConnectivity := model_connectivityOn vp \<rparr>))"

subsection \<open>Picking: \<open>getIntersects\<close> and \<open>lmViewVisible\<close>\<close>

text \<open>
  The constructor \<open>new THREE.Vector3(x, y, z)\<close> stores \<open>x || 0\<close>, \<open>y || 0\<close> and
  \<open>z || 0\<close>: a NaN argument (and a zero) is stored as 0, every other number as it is.
  \<open>setZ\<close> stores its argument unchanged.
\<close>

definition or_zero :: "jsnum \<Rightarrow> jsnum" where
  "or_zero n = (case n of NaN \<Rightarrow> Finite 0 | _ \<Rightarrow> n)"

definition new_Vector3 :: "jsnum \<Rightarrow> jsnum \<Rightarrow> jsnum \<Rightarrow> jsnum Vector3" where
  "new_Vector3 a b c = Vector3 (or_zero a) (or_zero b) (or_zero c)"

definition getIntersects ::
  "three \<Rightarrow> real \<Rightarrow> real \<Rightarrow> target \<Rightarrow> viewport \<Rightarrow> intersection list \<times> viewport" where
  "getIntersects T x y obj vp =
     (if obj = Null \<or> obj = Array [] then ([], vp)
      else
        (let vector = new_Vector3 (js_sub (js_mul (js_div x (width vp)) (Finite 2)) (Finite 1))
                                  (js_add (js_mul (js_neg (js_div y (height vp))) (Finite 2)) (Finite 1))
                                  (Finite 0.5);
             vp =
               (if s_camera vp = S_pCam
                then (let vector = Vector3 (vx vector) (vy vector) (Finite 0.5);
                          vector = unproject T (s_camera vp) vector
                      in vp\<lparr> ray := \<lparr> origin = camera_position T (s_camera vp),
                                       direction =
                                         normalize (sub vector (camera_position T (s_camera vp))) \<rparr> \<rparr>)
                else (let vector = Vector3 (vx vector) (vy vector) (Finite (-1));
                          vector = unproject T (s_camera vp) vector;
                          dir = transformDirection T (Vector3 0 0 (-1)) (s_camera vp)
                      in vp\<lparr> ray := \<lparr> origin = vector, direction = dir \<rparr> \<rparr>))
         in case (obj, mesh vp, octree vp) of
              (Object3D_ref i, Some m, Some oct) \<Rightarrow>
                if i = ident m then (intersetMesh T (ray vp) m oct, vp)
                else (intersectObject T (ray vp) i, vp)
            | (Array objs, _, _) \<Rightarrow> (intersectObjects T (ray vp) objs, vp)
            | (Object3D_ref i, _, _) \<Rightarrow> (intersectObject T (ray vp) i, vp)
            | (Null, _, _) \<Rightarrow> ([], vp)))"

definition worldToScreen :: "three \<Rightarrow> vec \<Rightarrow> viewport \<Rightarrow> vec" where
  "worldToScreen T vector vp =
     (let widthHalf = width vp / 2;
          heightHalf = height vp / 2;
          result = project T (s_camera vp) vector
      in Vector3 (vx result * widthHalf + widthHalf)
                 (- (vy result * heightHalf) + heightHalf)
                 (vz result))"

definition lmToScreen :: "three \<Rightarrow> symbol_t \<Rightarrow> viewport \<Rightarrow> vec" where
  "lmToScreen T lmSymbol vp = worldToScreen T (localToWorld T (symbol_position lmSymbol)) vp"

definition mesh_target :: "viewport \<Rightarrow> target" where
  "mesh_target vp = (case mesh vp of None \<Rightarrow> Null | Some m \<Rightarrow> Object3D_ref (ident m))"

text \<open>
  \<open>iLm[0].distance\<close> is read only when the mesh was hit; on an empty \<open>iLm\<close> that read
  throws a TypeError.
\<close>

definition lmViewVisible :: "three \<Rightarrow> lmView_t \<Rightarrow> viewport \<Rightarrow> bool outcome" where
  "lmViewVisible T lmView vp =
     (case symbol lmView of
        None \<Rightarrow> Returns False vp
      | Some lmSymbol \<Rightarrow>
          (let screenCoords = lmToScreen T lmSymbol vp;
               (iMesh, vp) = getIntersects T (vx screenCoords) (vy screenCoords) (mesh_target vp) vp;
               (iLm, vp) = getIntersects T (vx screenCoords) (vy screenCoords)
                             (Object3D_ref (symbol_ref lmSymbol)) vp
           in case iMesh of
                [] \<Rightarrow> Returns True vp
              | im # _ \<Rightarrow>
                  (case iLm of
                     [] \<Rightarrow> Throws TypeError vp
                   | il # _ \<Rightarrow> Returns (distance im > distance il) vp)))"

subsection \<open>Sequences of calls\<close>

text \<open>
  Render requests and atomic operations, nested at will: what can happen between the
  opening and the closing of a batch.
\<close>

datatype request = Update | Atomic "request list"

fun perform :: "request \<Rightarrow> viewport \<Rightarrow> viewport"
  and perform_all :: "request list \<Rightarrow> viewport \<Rightarrow> viewport" where
  "perform Update vp = update vp"
| "perform (Atomic rs) vp = endAtomicOperation (perform_all rs (startAtomicOperation vp))"
| "perform_all [] vp = vp"
| "perform_all (r # rs) vp = perform_all rs (perform r vp)"

definition fields :: "'a outcome \<Rightarrow> viewport" where
  "fields out = (case out of Returns _ vp \<Rightarrow> vp | Throws _ vp \<Rightarrow> vp)"

text \<open>
  The two methods that move the scene nodes, as events arriving one after another:
  \<open>newMeshAvailable\<close> with the payload the model then holds, and a \<open>pointUp\<close> request.
\<close>

datatype call = NewMeshAvailable "meshPayload option" | PointUp vec

fun dispatch :: "call \<Rightarrow> viewport \<Rightarrow> viewport" where
  "dispatch (NewMeshAvailable payload) vp = fields (changeMesh (vp\<lparr> model_mesh := payload \<rparr>))"
| "dispatch (PointUp v) vp = fields (pointUp v vp)"

text \<open>
  The fields as \<open>initialize\<close> leaves them for a model in mesh mode with no mesh loaded
  and connectivity on, in a container of the given size; the renderer's calls are
  recorded from then on.
\<close>

definition initialized :: "nat \<Rightarrow> nat \<Rightarrow> viewport" where
  "initialized w h =
     \<lparr> upVector = ORIGINAL_UP_VECTOR,
       s_scaleRotate = Object3D,
       s_translate = Object3D,
       s_h_scaleRotate = Object3D,
       s_h_translate = Object3D,
       s_mesh = [],
       meshScale = 1.0,
       mesh = None,
       octree = None,
       s_camera = S_pCam,
       renderer = Some [],
       showConnectivity = True,
       pipCanvas_display = DisplayNone,
       changePip_listeners = 0,
       ctxBox = empty_ctxBox,
       ctx = [],
       ray = \<lparr> origin = Vector3 0 0 0, direction = Vector3 0 0 0 \<rparr>,
       model_mesh = None,
       model_connectivityOn = True,
       containerWidth = w,
       containerHeight = h,
       ATOMIC_OPERATION = 0 \<rparr>"

text \<open>
  Where a viewport rectangle lies on the screen. \<open>setViewport\<close> and \<open>setScissor\<close> hand
  their four numbers to the renderer, which is not among the sources; what the numbers
  mean there is a parameter. WebGL (\<open>gl.viewport\<close>, \<open>gl.scissor\<close>) takes \<open>(x, y)\<close> as
  the lower-left corner of the rectangle, counted from the lower-left corner of a canvas
  of height \<open>H\<close> with y upwards (\<open>LowerLeft\<close>); \<open>UpperLeft\<close> is the other reading, with
  \<open>(x, y)\<close> the upper-left corner counted from the top. The result is in screen
  coordinates, as the rest of the viewport uses them (mouse positions, \<open>worldToScreen\<close>,
  the 2D canvas): y downwards from the top of the canvas.
\<close>

datatype viewport_origin = LowerLeft | UpperLeft

datatype screen_rect =
  Screen_rect (screen_left: real) (screen_top: real) (screen_right: real) (screen_bottom: real)

definition on_screen :: "viewport_origin \<Rightarrow> real \<Rightarrow> bounds \<Rightarrow> screen_rect" where
  "on_screen org H b =
     Screen_rect
       (bx b)
       (case org of LowerLeft \<Rightarrow> H - (by' b + bheight b) | UpperLeft \<Rightarrow> by' b)
       (bx b + bwidth b)
       (case org of LowerLeft \<Rightarrow> H - by' b | UpperLeft \<Rightarrow> by' b + bheight b)"

text \<open>
  The helper hierarchy mirrors the primary one when corresponding nodes carry the same
  position, scale, up vector and orientation.
\<close>

definition mirrored :: "viewport \<Rightarrow> bool" where
  "mirrored vp = (s_h_scaleRotate vp = s_scaleRotate vp \<and> s_h_translate vp = s_translate vp)"

text \<open>A payload to evaluate on: a mesh whose bounding sphere has radius 2 and centre \<open>(1,0,0)\<close>.\<close>

definition example_payload :: meshPayload where
  "example_payload =
     \<lparr> payload_mesh = \<lparr> ident = 1, isBufferGeometry = True,
                        geometry_boundingSphere = \<lparr> radius = 2, center = Vector3 1 0 0 \<rparr> \<rparr>,
       payload_up = Vector3 0 1 0,
       payload_front = Vector3 0 0 1 \<rparr>"



section \<open>Properties\<close>

subsection \<open>The nearest axis and the up vector\<close>

lemma mainDirection_fold:
  "snd (fold (mainDirection_step v) xs (d, m)) \<in> Some ` set xs \<union> {m}"
proof (induction xs arbitrary: d m)
  case Nil
  then show ?case by simp
next
  case (Cons c xs)
  show ?case
    using Cons.IH [of "distanceTo v c" "Some c"] Cons.IH [of d m]
    by (auto simp: Let_def)
qed

lemma mainDirection_fold_Some:
  "m \<noteq> None \<Longrightarrow> snd (fold (mainDirection_step v) xs (d, m)) \<noteq> None"
  by (induction xs arbitrary: d m) (auto simp: Let_def)

lemma mainDirection_some: "\<exists>c. mainDirection v = Some c \<and> c \<in> set COORDS"
proof -
  have ne: "COORDS = Vector3 1 0 0 # tl COORDS" by (simp add: COORDS_def)
  have "mainDirection v \<noteq> None"
    unfolding mainDirection_def
    by (subst ne) (simp add: Let_def mainDirection_fold_Some)
  moreover have "mainDirection v \<in> Some ` set COORDS \<union> {None}"
    unfolding mainDirection_def by (rule mainDirection_fold)
  ultimately show ?thesis by auto
qed

lemma pointUp_loop_Some: "\<exists>y. pointUp_loop s i (Some a) = Some y"
proof (induction s i "Some a" arbitrary: a rule: pointUp_loop.induct)
  case (1 s i)
  show ?case
    using "1.hyps" by (subst pointUp_loop.simps) (auto simp: Let_def)
qed

lemma pointUp_loop_defined: "\<exists>a. pointUp_loop s 0 None = Some a"
  by (subst pointUp_loop.simps) (simp add: Let_def pointUp_loop_Some)

lemma update_fields [simp]:
  "upVector (update vp) = upVector vp"
  "s_scaleRotate (update vp) = s_scaleRotate vp"
  "s_h_scaleRotate (update vp) = s_h_scaleRotate vp"
  "s_translate (update vp) = s_translate vp"
  "s_h_translate (update vp) = s_h_translate vp"
  "s_camera (update vp) = s_camera vp"
  "showConnectivity (update vp) = showConnectivity vp"
  "pipCanvas_display (update vp) = pipCanvas_display vp"
  "changePip_listeners (update vp) = changePip_listeners vp"
  "ATOMIC_OPERATION (update vp) = ATOMIC_OPERATION vp"
  "containerWidth (update vp) = containerWidth vp"
  "containerHeight (update vp) = containerHeight vp"
  "ctxBox (update vp) = ctxBox vp"
  "ctx (update vp) = ctx vp"
  "ray (update vp) = ray vp"
  "mesh (update vp) = mesh vp"
  "octree (update vp) = octree vp"
  "meshScale (update vp) = meshScale vp"
  "model_mesh (update vp) = model_mesh vp"
  "model_connectivityOn (update vp) = model_connectivityOn vp"
  by (simp_all add: update_def split: option.split)

lemma batchHandler_fields [simp]:
  "upVector (batchHandler vp) = upVector vp"
  "s_scaleRotate (batchHandler vp) = s_scaleRotate vp"
  "s_h_scaleRotate (batchHandler vp) = s_h_scaleRotate vp"
  "s_translate (batchHandler vp) = s_translate vp"
  "s_h_translate (batchHandler vp) = s_h_translate vp"
  "s_camera (batchHandler vp) = s_camera vp"
  "showConnectivity (batchHandler vp) = showConnectivity vp"
  "ATOMIC_OPERATION (batchHandler vp) = ATOMIC_OPERATION vp"
  "containerWidth (batchHandler vp) = containerWidth vp"
  "containerHeight (batchHandler vp) = containerHeight vp"
  by (simp_all add: batchHandler_def)

lemma startAtomicOperation_fields [simp]:
  "upVector (startAtomicOperation vp) = upVector vp"
  "s_scaleRotate (startAtomicOperation vp) = s_scaleRotate vp"
  "s_h_scaleRotate (startAtomicOperation vp) = s_h_scaleRotate vp"
  "s_translate (startAtomicOperation vp) = s_translate vp"
  "s_h_translate (startAtomicOperation vp) = s_h_translate vp"
  "s_camera (startAtomicOperation vp) = s_camera vp"
  "showConnectivity (startAtomicOperation vp) = showConnectivity vp"
  "ATOMIC_OPERATION (startAtomicOperation vp) = ATOMIC_OPERATION vp + 1"
  "containerWidth (startAtomicOperation vp) = containerWidth vp"
  "containerHeight (startAtomicOperation vp) = containerHeight vp"
  by (simp_all add: startAtomicOperation_def)

lemma endAtomicOperation_fields [simp]:
  "upVector (endAtomicOperation vp) = upVector vp"
  "s_scaleRotate (endAtomicOperation vp) = s_scaleRotate vp"
  "s_h_scaleRotate (endAtomicOperation vp) = s_h_scaleRotate vp"
  "s_translate (endAtomicOperation vp) = s_translate vp"
  "s_h_translate (endAtomicOperation vp) = s_h_translate vp"
  "s_camera (endAtomicOperation vp) = s_camera vp"
  "showConnectivity (endAtomicOperation vp) = showConnectivity vp"
  "ATOMIC_OPERATION (endAtomicOperation vp) = ATOMIC_OPERATION vp - 1"
  "containerWidth (endAtomicOperation vp) = containerWidth vp"
  "containerHeight (endAtomicOperation vp) = containerHeight vp"
  by (simp_all add: endAtomicOperation_def)

text \<open>What the wrapped function does, with the axis and the angle it chose.\<close>

lemma pointUp_body_returns:
  "\<exists>c a angle.
     mainDirection (normalize v) = Some c \<and> c \<in> set COORDS \<and>
     pointUp_body v vp =
       Returns ()
         (if c = upVector vp then vp
          else vp\<lparr> upVector := c,
                   s_scaleRotate := rotateOnAxis (s_scaleRotate vp) a angle,
                   s_h_scaleRotate := rotateOnAxis (s_h_scaleRotate vp) a angle \<rparr>)"
proof -
  obtain c where c: "mainDirection (normalize v) = Some c" "c \<in> set COORDS"
    using mainDirection_some by blast
  obtain a where a: "pointUp_loop (addVectors c (upVector vp)) 0 None = Some a"
    using pointUp_loop_defined by blast
  show ?thesis
  proof (cases "length_v (addVectors c (upVector vp)) = 0")
    case True
    then have "pointUp_body v vp =
       Returns ()
         (if c = upVector vp then vp
          else vp\<lparr> upVector := c,
                   s_scaleRotate := rotateOnAxis (s_scaleRotate vp) a (-1 * pi),
                   s_h_scaleRotate := rotateOnAxis (s_h_scaleRotate vp) a (-1 * pi) \<rparr>)"
      by (simp add: pointUp_body_def c a Let_def)
    with c show ?thesis by blast
  next
    case False
    define m where "m = vx (addVectors (addVectors c (upVector vp)) a) *
        vy (addVectors (addVectors c (upVector vp)) a) * vz (addVectors (addVectors c (upVector vp)) a)"
    from False have "pointUp_body v vp =
       Returns ()
         (if c = upVector vp then vp
          else vp\<lparr> upVector := c,
                   s_scaleRotate := rotateOnAxis (s_scaleRotate vp) a (m * pi / 2),
                   s_h_scaleRotate := rotateOnAxis (s_h_scaleRotate vp) a (m * pi / 2) \<rparr>)"
      by (simp add: pointUp_body_def c a Let_def m_def)
    with c show ?thesis by blast
  qed
qed

text \<open>
  Claim C1. For every target vector and from every state of the viewport, \<open>pointUp\<close>
  returns, and the stored up vector is then one of the six vectors of \<open>COORDS\<close>;
  a second call with the same target returns too and leaves the stored up vector and
  both ScaleRotate nodes (scale, up, position and orientation) as the first call left
  them.
\<close>

theorem pointUp_snaps_to_axis_and_is_idempotent:
  "\<exists>vp1. pointUp v vp = Returns () vp1 \<and> upVector vp1 \<in> set COORDS \<and>
     (\<exists>vp2. pointUp v vp1 = Returns () vp2 \<and>
        upVector vp2 = upVector vp1 \<and>
        s_scaleRotate vp2 = s_scaleRotate vp1 \<and>
        s_h_scaleRotate vp2 = s_h_scaleRotate vp1)"
proof -
  define vp0 where "vp0 = startAtomicOperation vp"
  obtain c a angle where c: "mainDirection (normalize v) = Some c" "c \<in> set COORDS"
    and body: "pointUp_body v vp0 =
       Returns ()
         (if c = upVector vp0 then vp0
          else vp0\<lparr> upVector := c,
                   s_scaleRotate := rotateOnAxis (s_scaleRotate vp0) a angle,
                   s_h_scaleRotate := rotateOnAxis (s_h_scaleRotate vp0) a angle \<rparr>)"
    using pointUp_body_returns [of v vp0] by blast
  define vp1' where "vp1' = (if c = upVector vp0 then vp0
          else vp0\<lparr> upVector := c,
                   s_scaleRotate := rotateOnAxis (s_scaleRotate vp0) a angle,
                   s_h_scaleRotate := rotateOnAxis (s_h_scaleRotate vp0) a angle \<rparr>)"
  define vp1 where "vp1 = endAtomicOperation vp1'"
  have up1': "upVector vp1' = c" by (simp add: vp1'_def)
  have first: "pointUp v vp = Returns () vp1"
    using body by (simp add: pointUp_def atomicOperation_def vp0_def vp1_def vp1'_def)
  have up1: "upVector vp1 = c" by (simp add: vp1_def up1')
  define vp2' where "vp2' = startAtomicOperation vp1"
  have up2': "upVector vp2' = c" by (simp add: vp2'_def up1)
  obtain c' a' angle' where c': "mainDirection (normalize v) = Some c'"
    and body2: "pointUp_body v vp2' =
       Returns ()
         (if c' = upVector vp2' then vp2'
          else vp2'\<lparr> upVector := c',
                   s_scaleRotate := rotateOnAxis (s_scaleRotate vp2') a' angle',
                   s_h_scaleRotate := rotateOnAxis (s_h_scaleRotate vp2') a' angle' \<rparr>)"
    using pointUp_body_returns [of v vp2'] by blast
  from c c' have "c' = c" by simp
  with body2 up2' have body2': "pointUp_body v vp2' = Returns () vp2'" by simp
  define vp2 where "vp2 = endAtomicOperation vp2'"
  have second: "pointUp v vp1 = Returns () vp2"
    using body2' by (simp add: pointUp_def atomicOperation_def vp2'_def vp2_def)
  have "upVector vp2 = upVector vp1" "s_scaleRotate vp2 = s_scaleRotate vp1"
    "s_h_scaleRotate vp2 = s_h_scaleRotate vp1"
    by (simp_all add: vp2_def vp2'_def)
  with first second up1 c show ?thesis by auto
qed

lemma pointUp_loop_unrolled:
  "pointUp_loop s 0 None =
     Some (if dot s (COORDS ! 0) = 0 then COORDS ! 0
           else if dot s (COORDS ! 2) = 0 then COORDS ! 2
           else COORDS ! 4)"
proof -
  have 6: "pointUp_loop s 6 (Some (COORDS ! 4)) = Some (COORDS ! 4)"
    by (subst pointUp_loop.simps) simp
  have 4: "pointUp_loop s 4 (Some (COORDS ! 2)) = Some (COORDS ! 4)"
    by (subst pointUp_loop.simps) (simp add: Let_def 6)
  have 2: "pointUp_loop s 2 (Some (COORDS ! 0)) =
      Some (if dot s (COORDS ! 2) = 0 then COORDS ! 2 else COORDS ! 4)"
    by (subst pointUp_loop.simps) (simp add: Let_def 4)
  have two: "Suc (Suc 0) = 2" by simp
  show ?thesis
    by (subst pointUp_loop.simps) (simp add: Let_def 2 two del: One_nat_def)
qed

lemma length_v_eq_0: "length_v s = 0 \<longleftrightarrow> s = Vector3 0 0 0"
proof (cases s)
  case (Vector3 a b c)
  have "a * a + b * b + c * c = 0 \<longleftrightarrow> a = 0 \<and> b = 0 \<and> c = 0"
    by (simp add: add_nonneg_eq_0_iff)
  then show ?thesis
    by (simp add: Vector3 length_v_def lengthSq_def)
qed

lemma pointUp_body_quarter_turn:
  assumes c: "mainDirection (normalize v) = Some c"
    and ne: "c \<noteq> upVector vp"
    and nz: "addVectors c (upVector vp) \<noteq> Vector3 0 0 0"
    and a: "pointUp_loop (addVectors c (upVector vp)) 0 None = Some a"
  shows "pointUp_body v vp =
     Returns ()
       (vp\<lparr> upVector := c,
             s_scaleRotate := rotateOnAxis (s_scaleRotate vp) a
               (vx (addVectors (addVectors c (upVector vp)) a) *
                vy (addVectors (addVectors c (upVector vp)) a) *
                vz (addVectors (addVectors c (upVector vp)) a) * pi / 2),
             s_h_scaleRotate := rotateOnAxis (s_h_scaleRotate vp) a
               (vx (addVectors (addVectors c (upVector vp)) a) *
                vy (addVectors (addVectors c (upVector vp)) a) *
                vz (addVectors (addVectors c (upVector vp)) a) * pi / 2) \<rparr>)"
  using ne nz by (simp add: pointUp_body_def c a Let_def length_v_eq_0)

lemma axis_rule:
  assumes "u \<in> set COORDS" "c \<in> set COORDS" "c \<noteq> u" "addVectors c u \<noteq> Vector3 0 0 0"
  shows "\<exists>a. pointUp_loop (addVectors c u) 0 None = Some a \<and>
           find (\<lambda>a. dot (addVectors c u) a = 0) [COORDS ! 0, COORDS ! 2, COORDS ! 4] = Some a \<and>
           (vx (addVectors (addVectors c u) a) * vy (addVectors (addVectors c u) a) *
              vz (addVectors (addVectors c u) a) = 1 \<or>
            vx (addVectors (addVectors c u) a) * vy (addVectors (addVectors c u) a) *
              vz (addVectors (addVectors c u) a) = -1)"
  using assms unfolding pointUp_loop_unrolled
  by (auto simp: COORDS_def addVectors_def dot_def)


lemma mainDirection_Z: "mainDirection (normalize (Vector3 0 0 1)) = Some (Vector3 0 0 1)"
  by (simp add: mainDirection_def normalize_def COORDS_def distanceTo_def lengthSq_def sub_def
      length_v_def divideScalar_def multiplyScalar_def Let_def)

text \<open>
  Claim C5. With the stored up vector \<open>(0,1,0)\<close>, \<open>pointUp\<close> on the target \<open>(0,0,1)\<close>
  returns with the stored up vector \<open>(0,0,1)\<close> and with one rotation by \<open>pi / 2\<close> about
  \<open>(1,0,0)\<close> composed onto the primary and the helper ScaleRotate node. In general,
  when the stored up vector is a canonical axis and the nearest axis \<open>c\<close> of the target
  is another one that is not its opposite, the rotation axis is the first of
  \<open>COORDS[0]\<close>, \<open>COORDS[2]\<close>, \<open>COORDS[4]\<close> whose dot product with the sum of the two
  is zero, and the angle is \<open>pi / 2\<close> times the sign of the product \<open>m\<close> of the components
  of (sum + axis), a product that is 1 or -1.
\<close>

theorem pointUp_quarter_turn:
  "(upVector vp = Vector3 0 1 0 \<longrightarrow>
      (\<exists>vp'. pointUp (Vector3 0 0 1) vp = Returns () vp' \<and>
         upVector vp' = Vector3 0 0 1 \<and>
         s_scaleRotate vp' = rotateOnAxis (s_scaleRotate vp) (Vector3 1 0 0) (pi / 2) \<and>
         s_h_scaleRotate vp' = rotateOnAxis (s_h_scaleRotate vp) (Vector3 1 0 0) (pi / 2))) \<and>
   (upVector vp \<in> set COORDS \<and> mainDirection (normalize v) = Some c \<and> c \<noteq> upVector vp \<and>
    addVectors c (upVector vp) \<noteq> Vector3 0 0 0 \<longrightarrow>
      (\<exists>a m vp'.
         find (\<lambda>a. dot (addVectors c (upVector vp)) a = 0) [COORDS ! 0, COORDS ! 2, COORDS ! 4] = Some a \<and>
         m = vx (addVectors (addVectors c (upVector vp)) a) *
             vy (addVectors (addVectors c (upVector vp)) a) *
             vz (addVectors (addVectors c (upVector vp)) a) \<and>
         (m = 1 \<or> m = -1) \<and>
         pointUp v vp = Returns () vp' \<and>
         upVector vp' = c \<and>
         s_scaleRotate vp' = rotateOnAxis (s_scaleRotate vp) a (sgn m * pi / 2) \<and>
         s_h_scaleRotate vp' = rotateOnAxis (s_h_scaleRotate vp) a (sgn m * pi / 2)))"
proof -
  have general: "\<exists>a m vp'.
         find (\<lambda>a. dot (addVectors c (upVector vp)) a = 0) [COORDS ! 0, COORDS ! 2, COORDS ! 4] = Some a \<and>
         m = vx (addVectors (addVectors c (upVector vp)) a) *
             vy (addVectors (addVectors c (upVector vp)) a) *
             vz (addVectors (addVectors c (upVector vp)) a) \<and>
         (m = 1 \<or> m = -1) \<and>
         pointUp v vp = Returns () vp' \<and>
         upVector vp' = c \<and>
         s_scaleRotate vp' = rotateOnAxis (s_scaleRotate vp) a (sgn m * pi / 2) \<and>
         s_h_scaleRotate vp' = rotateOnAxis (s_h_scaleRotate vp) a (sgn m * pi / 2)"
    if up: "upVector vp \<in> set COORDS" and c: "mainDirection (normalize v) = Some c"
      and ne: "c \<noteq> upVector vp" and nz: "addVectors c (upVector vp) \<noteq> Vector3 0 0 0"
    for v c vp
  proof -
    define vp0 where "vp0 = startAtomicOperation vp"
    have up0: "upVector vp0 = upVector vp" by (simp add: vp0_def)
    have cC: "c \<in> set COORDS" using mainDirection_some [of "normalize v"] c by auto
    define s where "s = addVectors c (upVector vp)"
    obtain a where a: "pointUp_loop s 0 None = Some a"
      and f: "find (\<lambda>a. dot s a = 0) [COORDS ! 0, COORDS ! 2, COORDS ! 4] = Some a"
      and m: "vx (addVectors s a) * vy (addVectors s a) * vz (addVectors s a) = 1 \<or>
              vx (addVectors s a) * vy (addVectors s a) * vz (addVectors s a) = -1"
      using axis_rule [OF up cC ne nz] unfolding s_def by blast
    define m where "m = vx (addVectors s a) * vy (addVectors s a) * vz (addVectors s a)"
    have sg: "sgn m = m" using m unfolding m_def [symmetric] by auto
    have body: "pointUp_body v vp0 =
       Returns ()
         (vp0\<lparr> upVector := c,
               s_scaleRotate := rotateOnAxis (s_scaleRotate vp0) a (m * pi / 2),
               s_h_scaleRotate := rotateOnAxis (s_h_scaleRotate vp0) a (m * pi / 2) \<rparr>)"
      using pointUp_body_quarter_turn [of v c vp0 a] c ne nz a
      by (simp add: up0 s_def m_def)
    define vp' where "vp' = endAtomicOperation (vp0\<lparr> upVector := c,
               s_scaleRotate := rotateOnAxis (s_scaleRotate vp0) a (m * pi / 2),
               s_h_scaleRotate := rotateOnAxis (s_h_scaleRotate vp0) a (m * pi / 2) \<rparr>)"
    have run: "pointUp v vp = Returns () vp'"
      by (simp add: pointUp_def atomicOperation_def vp0_def [symmetric] body vp'_def)
    have nodes: "upVector vp' = c"
      "s_scaleRotate vp' = rotateOnAxis (s_scaleRotate vp) a (sgn m * pi / 2)"
      "s_h_scaleRotate vp' = rotateOnAxis (s_h_scaleRotate vp) a (sgn m * pi / 2)"
      by (simp_all add: vp'_def vp0_def sg)
    have m': "m = 1 \<or> m = -1" using m by (simp add: m_def)
    show ?thesis
      using f m_def m' run nodes unfolding s_def by blast
  qed
  have scenario: "\<exists>vp'. pointUp (Vector3 0 0 1) vp = Returns () vp' \<and>
         upVector vp' = Vector3 0 0 1 \<and>
         s_scaleRotate vp' = rotateOnAxis (s_scaleRotate vp) (Vector3 1 0 0) (pi / 2) \<and>
         s_h_scaleRotate vp' = rotateOnAxis (s_h_scaleRotate vp) (Vector3 1 0 0) (pi / 2)"
    if up: "upVector vp = Vector3 0 1 0"
  proof -
    have 1: "upVector vp \<in> set COORDS" by (simp add: up COORDS_def)
    from general [OF 1 mainDirection_Z] up
    show ?thesis
      by (auto simp: addVectors_def COORDS_def dot_def)
  qed
  from general scenario show ?thesis by blast
qed

theorem pointUp_quarter_turn_witness:
  "upVector (initialized 800 600) = Vector3 0 1 0 \<and>
   upVector (initialized 800 600) \<in> set COORDS \<and>
   mainDirection (normalize (Vector3 0 0 1)) = Some (Vector3 0 0 1) \<and>
   addVectors (Vector3 0 0 1) (upVector (initialized 800 600)) = Vector3 0 1 1 \<and>
   find (\<lambda>a. dot (Vector3 0 1 1) a = 0) [COORDS ! 0, COORDS ! 2, COORDS ! 4] = Some (Vector3 1 0 0) \<and>
   (\<exists>vp'. pointUp (Vector3 0 0 1) (initialized 800 600) = Returns () vp' \<and>
      upVector vp' = Vector3 0 0 1 \<and>
      s_scaleRotate vp' = rotateOnAxis Object3D (Vector3 1 0 0) (pi / 2) \<and>
      s_h_scaleRotate vp' = rotateOnAxis Object3D (Vector3 1 0 0) (pi / 2))"
proof -
  have up: "upVector (initialized 800 600) = Vector3 0 1 0"
    by (simp add: initialized_def ORIGINAL_UP_VECTOR_def COORDS_def)
  have n: "s_scaleRotate (initialized 800 600) = Object3D"
    "s_h_scaleRotate (initialized 800 600) = Object3D"
    by (simp_all add: initialized_def)
  have pre: "upVector (initialized 800 600) \<in> set COORDS"
    "addVectors (Vector3 0 0 1) (upVector (initialized 800 600)) = Vector3 0 1 1"
    "find (\<lambda>a. dot (Vector3 0 1 1) a = 0) [COORDS ! 0, COORDS ! 2, COORDS ! 4] = Some (Vector3 1 0 0)"
    by (simp_all add: up COORDS_def addVectors_def dot_def)
  from pointUp_quarter_turn [of "initialized 800 600" "Vector3 0 0 1" "Vector3 0 0 1"] up
  have "\<exists>vp'. pointUp (Vector3 0 0 1) (initialized 800 600) = Returns () vp' \<and>
      upVector vp' = Vector3 0 0 1 \<and>
      s_scaleRotate vp' = rotateOnAxis Object3D (Vector3 1 0 0) (pi / 2) \<and>
      s_h_scaleRotate vp' = rotateOnAxis Object3D (Vector3 1 0 0) (pi / 2)"
    by (simp add: n)
  with up pre mainDirection_Z show ?thesis by simp
qed

subsection \<open>The atomic-operation gate\<close>

lemma update_suppressed: "0 < ATOMIC_OPERATION vp \<Longrightarrow> update vp = vp"
  by (simp add: update_def atomicOperationUnderway_def split: option.split)

lemma batchHandler_unfinished: "ATOMIC_OPERATION vp \<noteq> 0 \<Longrightarrow> batchHandler vp = vp"
  by (simp add: batchHandler_def atomicOperationFinished_def)

lemma batchHandler_finished: "ATOMIC_OPERATION vp = 0 \<Longrightarrow> batchHandler vp = update vp"
  by (simp add: batchHandler_def atomicOperationFinished_def)

lemma perform_suppressed:
  "0 < ATOMIC_OPERATION vp \<Longrightarrow> perform r vp = vp"
  "0 < ATOMIC_OPERATION vp \<Longrightarrow> perform_all rs vp = vp"
proof (induction r vp and rs vp rule: perform_perform_all.induct)
  case (1 vp)
  then show ?case by (simp add: update_suppressed)
next
  case (2 rs vp)
  define vp1 where "vp1 = vp\<lparr> ATOMIC_OPERATION := ATOMIC_OPERATION vp + 1 \<rparr>"
  have d1: "0 < ATOMIC_OPERATION vp1" using "2.prems" by (simp add: vp1_def)
  have start: "startAtomicOperation vp = vp1"
    using d1 by (simp add: startAtomicOperation_def vp1_def [symmetric] batchHandler_unfinished)
  have inner: "perform_all rs vp1 = vp1"
    using "2.IH" d1 start by simp
  have "endAtomicOperation vp1 = vp"
    using "2.prems" by (simp add: endAtomicOperation_def vp1_def batchHandler_unfinished)
  with start inner show ?case by simp
next
  case (3 vp)
  then show ?case by simp
next
  case (4 r rs vp)
  then show ?case by simp
qed

lemma perform_outermost:
  assumes "ATOMIC_OPERATION vp = 0"
  shows "perform (Atomic rs) vp = update vp"
proof -
  define vp1 where "vp1 = vp\<lparr> ATOMIC_OPERATION := 1 \<rparr>"
  have start: "startAtomicOperation vp = vp1"
    using assms by (simp add: startAtomicOperation_def vp1_def batchHandler_unfinished)
  have inner: "perform_all rs vp1 = vp1"
    by (rule perform_suppressed) (simp add: vp1_def)
  have "vp1\<lparr> ATOMIC_OPERATION := ATOMIC_OPERATION vp1 - 1 \<rparr> = vp"
    using assms by (simp add: vp1_def)
  then have "endAtomicOperation vp1 = update vp"
    using assms by (simp add: endAtomicOperation_def batchHandler_finished)
  with start inner show ?thesis by simp
qed

lemma update_renders:
  "ATOMIC_OPERATION vp = 0 \<Longrightarrow> renderer vp = Some calls \<Longrightarrow>
     update vp = vp\<lparr> renderer := Some (calls @ frame vp) \<rparr>"
  by (simp add: update_def atomicOperationUnderway_def)

lemma fields_simps [simp]:
  "fields (Returns r vp) = vp"
  "fields (Throws e vp) = vp"
  by (simp_all add: fields_def)

lemma frame_cong:
  "s_camera vp' = s_camera vp \<Longrightarrow> showConnectivity vp' = showConnectivity vp \<Longrightarrow>
   containerWidth vp' = containerWidth vp \<Longrightarrow> containerHeight vp' = containerHeight vp \<Longrightarrow>
   frame vp' = frame vp"
  by (simp add: frame_def pip_pass_def pipBounds_def width_def height_def)

lemma frame_calls:
  "frame v =
     [SetViewport 0 0 (width v) (height v),
      SetScissor 0 0 (width v) (height v),
      EnableScissorTest True,
      Clear,
      Render Scene (s_camera v)]
     @ (if showConnectivity v then [ClearDepth, Render SceneHelpers (s_camera v)] else [])
     @ (if s_camera v = S_oCam
        then [SetClearColor CLEAR_COLOUR_PIP 1,
              SetViewport (width v - 300) (height v - 300) 300 300,
              SetScissor (width v - 300) (height v - 300) 300 300,
              EnableScissorTest True,
              Clear,
              Render Scene S_oCamZoom]
             @ (if showConnectivity v then [ClearDepth, Render SceneHelpers S_oCamZoom] else [])
             @ [SetClearColor CLEAR_COLOUR 1]
        else [])"
  by (simp add: frame_def pip_pass_def pipBounds_def PIP_WIDTH_def PIP_HEIGHT_def Let_def)

lemma startAtomicOperation_opens:
  "0 \<le> ATOMIC_OPERATION vp \<Longrightarrow>
     startAtomicOperation vp = vp\<lparr> ATOMIC_OPERATION := ATOMIC_OPERATION vp + 1 \<rparr>"
  by (simp add: startAtomicOperation_def batchHandler_unfinished)

lemma endAtomicOperation_outermost:
  "ATOMIC_OPERATION vp = 1 \<Longrightarrow> renderer vp = Some calls \<Longrightarrow>
     endAtomicOperation vp =
       vp\<lparr> ATOMIC_OPERATION := 0,
             renderer := Some (calls @ frame vp) \<rparr>"
proof -
  assume d: "ATOMIC_OPERATION vp = 1" and r: "renderer vp = Some calls"
  have fr: "frame (vp\<lparr> ATOMIC_OPERATION := 0 \<rparr>) = frame vp"
    by (simp add: frame_def pip_pass_def pipBounds_def width_def height_def)
  show ?thesis
    using d r fr
    by (simp add: endAtomicOperation_def batchHandler_finished update_def atomicOperationUnderway_def)
qed

lemma endAtomicOperation_no_renderer:
  "ATOMIC_OPERATION vp = 1 \<Longrightarrow> renderer vp = None \<Longrightarrow>
     endAtomicOperation vp = vp\<lparr> ATOMIC_OPERATION := 0 \<rparr>"
  by (simp add: endAtomicOperation_def batchHandler_finished update_def)

lemma endAtomicOperation_nested:
  "1 < ATOMIC_OPERATION vp \<Longrightarrow>
     endAtomicOperation vp = vp\<lparr> ATOMIC_OPERATION := ATOMIC_OPERATION vp - 1 \<rparr>"
  by (simp add: endAtomicOperation_def batchHandler_unfinished)

lemma fields_atomicOperation:
  "fields (atomicOperation f vp) = endAtomicOperation (fields (f (startAtomicOperation vp)))"
  by (simp add: atomicOperation_def fields_def split: outcome.split)


lemma atomicOperation_outermost:
  assumes d: "ATOMIC_OPERATION vp = 0"
    and bal: "ATOMIC_OPERATION (fields (f (vp\<lparr> ATOMIC_OPERATION := 1 \<rparr>))) = 1"
    and r: "renderer (fields (f (vp\<lparr> ATOMIC_OPERATION := 1 \<rparr>))) = Some calls'"
  shows "atomicOperation f vp =
     (case f (vp\<lparr> ATOMIC_OPERATION := 1 \<rparr>) of
        Returns r vp' \<Rightarrow>
          Returns r (vp'\<lparr> ATOMIC_OPERATION := 0, renderer := Some (calls' @ frame vp') \<rparr>)
      | Throws e vp' \<Rightarrow>
          Throws e (vp'\<lparr> ATOMIC_OPERATION := 0, renderer := Some (calls' @ frame vp') \<rparr>))"
proof -
  have s: "startAtomicOperation vp = vp\<lparr> ATOMIC_OPERATION := 1 \<rparr>"
    using d by (simp add: startAtomicOperation_opens)
  show ?thesis
  proof (cases "f (vp\<lparr> ATOMIC_OPERATION := 1 \<rparr>)")
    case (Returns x vp')
    with bal r have "ATOMIC_OPERATION vp' = 1" "renderer vp' = Some calls'" by simp_all
    then show ?thesis
      by (simp add: atomicOperation_def s Returns endAtomicOperation_outermost)
  next
    case (Throws e vp')
    with bal r have "ATOMIC_OPERATION vp' = 1" "renderer vp' = Some calls'" by simp_all
    then show ?thesis
      by (simp add: atomicOperation_def s Throws endAtomicOperation_outermost)
  qed
qed

lemma atomicOperation_nested:
  assumes d: "0 < ATOMIC_OPERATION vp"
    and bal: "ATOMIC_OPERATION (fields (f (vp\<lparr> ATOMIC_OPERATION := ATOMIC_OPERATION vp + 1 \<rparr>))) =
                ATOMIC_OPERATION vp + 1"
  shows "atomicOperation f vp =
     (case f (vp\<lparr> ATOMIC_OPERATION := ATOMIC_OPERATION vp + 1 \<rparr>) of
        Returns r vp' \<Rightarrow> Returns r (vp'\<lparr> ATOMIC_OPERATION := ATOMIC_OPERATION vp \<rparr>)
      | Throws e vp' \<Rightarrow> Throws e (vp'\<lparr> ATOMIC_OPERATION := ATOMIC_OPERATION vp \<rparr>))"
proof -
  have s: "startAtomicOperation vp = vp\<lparr> ATOMIC_OPERATION := ATOMIC_OPERATION vp + 1 \<rparr>"
    using d by (simp add: startAtomicOperation_opens)
  show ?thesis
  proof (cases "f (vp\<lparr> ATOMIC_OPERATION := ATOMIC_OPERATION vp + 1 \<rparr>)")
    case (Returns x vp')
    with bal have "ATOMIC_OPERATION vp' = ATOMIC_OPERATION vp + 1" by simp
    with d show ?thesis
      by (simp add: atomicOperation_def s Returns endAtomicOperation_nested)
  next
    case (Throws e vp')
    with bal have "ATOMIC_OPERATION vp' = ATOMIC_OPERATION vp + 1" by simp
    with d show ?thesis
      by (simp add: atomicOperation_def s Throws endAtomicOperation_nested)
  qed
qed

lemma pointUp_outermost:
  assumes d: "ATOMIC_OPERATION vp = 0" and r: "renderer vp = Some calls"
  shows "\<exists>vp'. pointUp u vp = Returns () vp' \<and> ATOMIC_OPERATION vp' = 0 \<and>
           renderer vp' = Some (calls @ frame vp)"
proof -
  define vp1 where "vp1 = vp\<lparr> ATOMIC_OPERATION := 1 \<rparr>"
  obtain c a angle where
    body: "pointUp_body u vp1 =
       Returns ()
         (if c = upVector vp1 then vp1
          else vp1\<lparr> upVector := c,
                   s_scaleRotate := rotateOnAxis (s_scaleRotate vp1) a angle,
                   s_h_scaleRotate := rotateOnAxis (s_h_scaleRotate vp1) a angle \<rparr>)"
    using pointUp_body_returns [of u vp1] by blast
  define X where "X = (if c = upVector vp1 then vp1
          else vp1\<lparr> upVector := c,
                   s_scaleRotate := rotateOnAxis (s_scaleRotate vp1) a angle,
                   s_h_scaleRotate := rotateOnAxis (s_h_scaleRotate vp1) a angle \<rparr>)"
  have X: "ATOMIC_OPERATION X = 1" "renderer X = Some calls"
    using r by (simp_all add: X_def vp1_def)
  have fr: "frame X = frame vp"
    by (rule frame_cong) (simp_all add: X_def vp1_def)
  have b: "pointUp_body u vp1 = Returns () X" using body by (simp add: X_def)
  have "pointUp u vp = Returns () (X\<lparr> ATOMIC_OPERATION := 0, renderer := Some (calls @ frame X) \<rparr>)"
    unfolding pointUp_def
    using atomicOperation_outermost [of vp "pointUp_body u" calls] d X b
    by (simp add: vp1_def [symmetric])
  then show ?thesis by (simp add: fr)
qed

lemma updateConnectivityDisplay_outermost:
  assumes d: "ATOMIC_OPERATION vp = 0" and r: "renderer vp = Some calls"
  shows "updateConnectivityDisplay vp =
     Returns ()
       (vp\<lparr> showConnectivity := model_connectivityOn vp,
             renderer :=
               Some (calls @ frame (vp\<lparr> showConnectivity := model_connectivityOn vp \<rparr>)) \<rparr>)"
proof -
  have fr: "frame (vp\<lparr> ATOMIC_OPERATION := 1, showConnectivity := model_connectivityOn vp \<rparr>) =
      frame (vp\<lparr> showConnectivity := model_connectivityOn vp \<rparr>)"
    by (rule frame_cong) simp_all
  show ?thesis
    unfolding updateConnectivityDisplay_def
    using atomicOperation_outermost
            [of vp "\<lambda>vp. Returns () (vp\<lparr> showConnectivity := model_connectivityOn vp \<rparr>)" calls]
          d r
    by (simp add: fr)
qed


text \<open>
  Claim C2. While the depth counter is above zero, \<open>update\<close> changes nothing, and so
  does every sequence of render requests and nested atomic operations. A frame is the
  list of renderer calls written out below, never empty. An atomic operation opened at
  depth zero renders nothing when it opens; whatever its body \<open>f\<close> does to the fields,
  and whether it returns or throws, if it leaves the counter where the opening put it
  and the renderer exists, then the closing decrement runs \<open>batchHandler\<close> at depth
  zero, which adds the calls of exactly one frame of the body's final state to the
  renderer and changes nothing else. An atomic operation opened inside another one
  renders neither when it opens nor when it closes. \<open>pointUp\<close> and
  \<open>updateConnectivityDisplay\<close>, two of the source's atomic operations, are instances;
  \<open>updateEditingDisplay\<close> and \<open>changeLandmarks\<close> are bodies \<open>f\<close> like any other.
\<close>

theorem atomic_gate_batches_renders:
  "(0 < ATOMIC_OPERATION vp \<longrightarrow> update vp = vp \<and> perform r vp = vp) \<and>
   frame v =
     [SetViewport 0 0 (width v) (height v),
      SetScissor 0 0 (width v) (height v),
      EnableScissorTest True,
      Clear,
      Render Scene (s_camera v)]
     @ (if showConnectivity v then [ClearDepth, Render SceneHelpers (s_camera v)] else [])
     @ (if s_camera v = S_oCam
        then [SetClearColor CLEAR_COLOUR_PIP 1,
              SetViewport (width v - 300) (height v - 300) 300 300,
              SetScissor (width v - 300) (height v - 300) 300 300,
              EnableScissorTest True,
              Clear,
              Render Scene S_oCamZoom]
             @ (if showConnectivity v then [ClearDepth, Render SceneHelpers S_oCamZoom] else [])
             @ [SetClearColor CLEAR_COLOUR 1]
        else []) \<and>
   (ATOMIC_OPERATION vp = 0 \<and>
    ATOMIC_OPERATION (fields (f (vp\<lparr> ATOMIC_OPERATION := 1 \<rparr>))) = 1 \<and>
    renderer (fields (f (vp\<lparr> ATOMIC_OPERATION := 1 \<rparr>))) = Some calls' \<longrightarrow>
      startAtomicOperation vp = vp\<lparr> ATOMIC_OPERATION := 1 \<rparr> \<and>
      atomicOperation f vp =
        (case f (vp\<lparr> ATOMIC_OPERATION := 1 \<rparr>) of
           Returns x vp' \<Rightarrow>
             Returns x (vp'\<lparr> ATOMIC_OPERATION := 0, renderer := Some (calls' @ frame vp') \<rparr>)
         | Throws e vp' \<Rightarrow>
             Throws e (vp'\<lparr> ATOMIC_OPERATION := 0, renderer := Some (calls' @ frame vp') \<rparr>))) \<and>
   (0 < ATOMIC_OPERATION vp \<and>
    ATOMIC_OPERATION (fields (f (vp\<lparr> ATOMIC_OPERATION := ATOMIC_OPERATION vp + 1 \<rparr>))) =
      ATOMIC_OPERATION vp + 1 \<longrightarrow>
      startAtomicOperation vp = vp\<lparr> ATOMIC_OPERATION := ATOMIC_OPERATION vp + 1 \<rparr> \<and>
      atomicOperation f vp =
        (case f (vp\<lparr> ATOMIC_OPERATION := ATOMIC_OPERATION vp + 1 \<rparr>) of
           Returns x vp' \<Rightarrow> Returns x (vp'\<lparr> ATOMIC_OPERATION := ATOMIC_OPERATION vp \<rparr>)
         | Throws e vp' \<Rightarrow> Throws e (vp'\<lparr> ATOMIC_OPERATION := ATOMIC_OPERATION vp \<rparr>))) \<and>
   (ATOMIC_OPERATION vp = 0 \<and> renderer vp = Some calls \<longrightarrow>
      (\<exists>vp'. pointUp u vp = Returns () vp' \<and> ATOMIC_OPERATION vp' = 0 \<and>
         renderer vp' = Some (calls @ frame vp)) \<and>
      updateConnectivityDisplay vp =
        Returns ()
          (vp\<lparr> showConnectivity := model_connectivityOn vp,
                renderer :=
                  Some (calls @ frame (vp\<lparr> showConnectivity := model_connectivityOn vp \<rparr>)) \<rparr>) \<and>
      perform_all rs (startAtomicOperation vp) = vp\<lparr> ATOMIC_OPERATION := 1 \<rparr> \<and>
      atomicOperation (\<lambda>vp. Returns () (perform_all rs vp)) vp =
        Returns () (vp\<lparr> renderer := Some (calls @ frame vp) \<rparr>) \<and>
      perform (Atomic rs) vp = batchHandler vp \<and>
      perform (Atomic rs) vp = vp\<lparr> renderer := Some (calls @ frame vp) \<rparr>)"
proof (intro conjI impI)
  show "frame v =
     [SetViewport 0 0 (width v) (height v),
      SetScissor 0 0 (width v) (height v),
      EnableScissorTest True,
      Clear,
      Render Scene (s_camera v)]
     @ (if showConnectivity v then [ClearDepth, Render SceneHelpers (s_camera v)] else [])
     @ (if s_camera v = S_oCam
        then [SetClearColor CLEAR_COLOUR_PIP 1,
              SetViewport (width v - 300) (height v - 300) 300 300,
              SetScissor (width v - 300) (height v - 300) 300 300,
              EnableScissorTest True,
              Clear,
              Render Scene S_oCamZoom]
             @ (if showConnectivity v then [ClearDepth, Render SceneHelpers S_oCamZoom] else [])
             @ [SetClearColor CLEAR_COLOUR 1]
        else [])"
    by (rule frame_calls)
next
  assume "0 < ATOMIC_OPERATION vp"
  then show "update vp = vp" "perform r vp = vp"
    by (simp_all add: update_suppressed perform_suppressed)
next
  assume a: "ATOMIC_OPERATION vp = 0 \<and>
    ATOMIC_OPERATION (fields (f (vp\<lparr> ATOMIC_OPERATION := 1 \<rparr>))) = 1 \<and>
    renderer (fields (f (vp\<lparr> ATOMIC_OPERATION := 1 \<rparr>))) = Some calls'"
  then show "startAtomicOperation vp = vp\<lparr> ATOMIC_OPERATION := 1 \<rparr>"
    by (simp add: startAtomicOperation_opens)
  from a show "atomicOperation f vp =
        (case f (vp\<lparr> ATOMIC_OPERATION := 1 \<rparr>) of
           Returns x vp' \<Rightarrow>
             Returns x (vp'\<lparr> ATOMIC_OPERATION := 0, renderer := Some (calls' @ frame vp') \<rparr>)
         | Throws e vp' \<Rightarrow>
             Throws e (vp'\<lparr> ATOMIC_OPERATION := 0, renderer := Some (calls' @ frame vp') \<rparr>))"
    using atomicOperation_outermost [of vp f calls'] by blast
next
  assume a: "0 < ATOMIC_OPERATION vp \<and>
    ATOMIC_OPERATION (fields (f (vp\<lparr> ATOMIC_OPERATION := ATOMIC_OPERATION vp + 1 \<rparr>))) =
      ATOMIC_OPERATION vp + 1"
  then show "startAtomicOperation vp = vp\<lparr> ATOMIC_OPERATION := ATOMIC_OPERATION vp + 1 \<rparr>"
    by (simp add: startAtomicOperation_opens)
  from a show "atomicOperation f vp =
        (case f (vp\<lparr> ATOMIC_OPERATION := ATOMIC_OPERATION vp + 1 \<rparr>) of
           Returns x vp' \<Rightarrow> Returns x (vp'\<lparr> ATOMIC_OPERATION := ATOMIC_OPERATION vp \<rparr>)
         | Throws e vp' \<Rightarrow> Throws e (vp'\<lparr> ATOMIC_OPERATION := ATOMIC_OPERATION vp \<rparr>))"
    using atomicOperation_nested [of vp f] by blast
next
  assume a: "ATOMIC_OPERATION vp = 0 \<and> renderer vp = Some calls"
  then show "\<exists>vp'. pointUp u vp = Returns () vp' \<and> ATOMIC_OPERATION vp' = 0 \<and>
         renderer vp' = Some (calls @ frame vp)"
    using pointUp_outermost [of vp calls u] by blast
  from a show "updateConnectivityDisplay vp =
        Returns ()
          (vp\<lparr> showConnectivity := model_connectivityOn vp,
                renderer :=
                  Some (calls @ frame (vp\<lparr> showConnectivity := model_connectivityOn vp \<rparr>)) \<rparr>)"
    using updateConnectivityDisplay_outermost [of vp calls] by blast
  have s: "startAtomicOperation vp = vp\<lparr> ATOMIC_OPERATION := 1 \<rparr>"
    using a by (simp add: startAtomicOperation_opens)
  have inner: "perform_all rs (vp\<lparr> ATOMIC_OPERATION := 1 \<rparr>) = vp\<lparr> ATOMIC_OPERATION := 1 \<rparr>"
    by (rule perform_suppressed) simp
  from s inner show "perform_all rs (startAtomicOperation vp) = vp\<lparr> ATOMIC_OPERATION := 1 \<rparr>"
    by simp
  have p: "perform (Atomic rs) vp = vp\<lparr> renderer := Some (calls @ frame vp) \<rparr>"
    using a by (simp add: perform_outermost update_renders del: perform.simps)
  then show "perform (Atomic rs) vp = vp\<lparr> renderer := Some (calls @ frame vp) \<rparr>" .
  from a show "perform (Atomic rs) vp = batchHandler vp"
    by (simp add: perform_outermost batchHandler_finished del: perform.simps)
  have "atomicOperation (\<lambda>vp. Returns () (perform_all rs vp)) vp = Returns () (perform (Atomic rs) vp)"
    by (simp add: atomicOperation_def)
  with p show "atomicOperation (\<lambda>vp. Returns () (perform_all rs vp)) vp =
        Returns () (vp\<lparr> renderer := Some (calls @ frame vp) \<rparr>)"
    by simp
qed

theorem atomic_gate_batches_renders_witness:
  "0 < ATOMIC_OPERATION (initialized 800 600\<lparr> ATOMIC_OPERATION := 2 \<rparr>) \<and>
   update (initialized 800 600\<lparr> ATOMIC_OPERATION := 2 \<rparr>) = initialized 800 600\<lparr> ATOMIC_OPERATION := 2 \<rparr> \<and>
   ATOMIC_OPERATION (initialized 800 600) = 0 \<and> renderer (initialized 800 600) = Some [] \<and>
   perform (Atomic [Update, Atomic [Update, Update], Update]) (initialized 800 600) =
     initialized 800 600\<lparr> renderer := Some (frame (initialized 800 600)) \<rparr> \<and>
   atomicOperation (\<lambda>vp. Throws TypeError (vp\<lparr> showConnectivity := False \<rparr>)) (initialized 800 600) =
     (Throws TypeError
        (initialized 800 600
           \<lparr> showConnectivity := False,
             renderer := Some [SetViewport 0 0 800 600, SetScissor 0 0 800 600,
                               EnableScissorTest True, Clear, Render Scene S_pCam] \<rparr>) :: unit outcome) \<and>
   atomicOperation (\<lambda>vp. Returns () (vp\<lparr> showConnectivity := False \<rparr>))
       (initialized 800 600\<lparr> ATOMIC_OPERATION := 2 \<rparr>) =
     Returns () (initialized 800 600\<lparr> ATOMIC_OPERATION := 2, showConnectivity := False \<rparr>)"
proof -
  define v0 where "v0 = initialized 800 600"
  have a: "0 < ATOMIC_OPERATION (v0\<lparr> ATOMIC_OPERATION := 2 \<rparr>)" by simp
  have b: "ATOMIC_OPERATION v0 = 0" "renderer v0 = Some []" "s_camera v0 = S_pCam"
    "width v0 = 800" "height v0 = 600"
    by (simp_all add: v0_def initialized_def width_def height_def)
  have c: "update (v0\<lparr> ATOMIC_OPERATION := 2 \<rparr>) = v0\<lparr> ATOMIC_OPERATION := 2 \<rparr>"
    using atomic_gate_batches_renders [of "v0\<lparr> ATOMIC_OPERATION := 2 \<rparr>" Update] a
    by blast
  have d: "perform (Atomic [Update, Atomic [Update, Update], Update]) v0 =
      v0\<lparr> renderer := Some ([] @ frame v0) \<rparr>"
    using atomic_gate_batches_renders
            [of v0 Update v0 "\<lambda>vp. Returns () vp" "[]" "[]" "Vector3 0 0 1"
                "[Update, Atomic [Update, Update], Update]"] b
    by blast
  define f :: "viewport \<Rightarrow> unit outcome"
    where "f = (\<lambda>vp. Throws TypeError (vp\<lparr> showConnectivity := False \<rparr>))"
  define g :: "viewport \<Rightarrow> unit outcome"
    where "g = (\<lambda>vp. Returns () (vp\<lparr> showConnectivity := False \<rparr>))"
  define v1 where "v1 = v0\<lparr> ATOMIC_OPERATION := 1, showConnectivity := False \<rparr>"
  have fh: "ATOMIC_OPERATION v0 = 0 \<and>
      ATOMIC_OPERATION (fields (f (v0\<lparr> ATOMIC_OPERATION := 1 \<rparr>))) = 1 \<and>
      renderer (fields (f (v0\<lparr> ATOMIC_OPERATION := 1 \<rparr>))) = Some []"
    using b by (simp add: f_def)
  note inst = atomic_gate_batches_renders [of v0 Update v1 f "[]" "[]" "Vector3 0 0 1" "[]"]
  from inst have fr: "frame v1 =
      [SetViewport 0 0 800 600, SetScissor 0 0 800 600, EnableScissorTest True, Clear,
       Render Scene S_pCam]"
    using b by (simp add: v1_def width_def height_def)
  from inst fh have "atomicOperation f v0 =
      (case f (v0\<lparr> ATOMIC_OPERATION := 1 \<rparr>) of
         Returns x vp' \<Rightarrow>
           Returns x (vp'\<lparr> ATOMIC_OPERATION := 0, renderer := Some ([] @ frame vp') \<rparr>)
       | Throws e vp' \<Rightarrow>
           Throws e (vp'\<lparr> ATOMIC_OPERATION := 0, renderer := Some ([] @ frame vp') \<rparr>))"
    by blast
  then have e: "atomicOperation f v0 =
      Throws TypeError
        (v0\<lparr> showConnectivity := False,
              renderer := Some [SetViewport 0 0 800 600, SetScissor 0 0 800 600,
                                EnableScissorTest True, Clear, Render Scene S_pCam] \<rparr>)"
    using fr b by (simp add: f_def v1_def)
  have gh: "0 < ATOMIC_OPERATION (v0\<lparr> ATOMIC_OPERATION := 2 \<rparr>) \<and>
      ATOMIC_OPERATION (fields (g (v0\<lparr> ATOMIC_OPERATION := 2 \<rparr>
          \<lparr> ATOMIC_OPERATION := ATOMIC_OPERATION (v0\<lparr> ATOMIC_OPERATION := 2 \<rparr>) + 1 \<rparr>))) =
        ATOMIC_OPERATION (v0\<lparr> ATOMIC_OPERATION := 2 \<rparr>) + 1"
    by (simp add: g_def)
  from atomic_gate_batches_renders
         [of "v0\<lparr> ATOMIC_OPERATION := 2 \<rparr>" Update v0 g "[]" "[]" "Vector3 0 0 1" "[]"] gh
  have "atomicOperation g (v0\<lparr> ATOMIC_OPERATION := 2 \<rparr>) =
      (case g (v0\<lparr> ATOMIC_OPERATION := 2 \<rparr>
                 \<lparr> ATOMIC_OPERATION := ATOMIC_OPERATION (v0\<lparr> ATOMIC_OPERATION := 2 \<rparr>) + 1 \<rparr>) of
         Returns x vp' \<Rightarrow>
           Returns x (vp'\<lparr> ATOMIC_OPERATION := ATOMIC_OPERATION (v0\<lparr> ATOMIC_OPERATION := 2 \<rparr>) \<rparr>)
       | Throws e vp' \<Rightarrow>
           Throws e (vp'\<lparr> ATOMIC_OPERATION := ATOMIC_OPERATION (v0\<lparr> ATOMIC_OPERATION := 2 \<rparr>) \<rparr>))"
    by blast
  then have h: "atomicOperation g (v0\<lparr> ATOMIC_OPERATION := 2 \<rparr>) =
      Returns () (v0\<lparr> ATOMIC_OPERATION := 2, showConnectivity := False \<rparr>)"
    by (simp add: g_def)
  from a b c d e h show ?thesis
    unfolding v0_def [symmetric] f_def g_def by (simp del: perform.simps)
qed

subsection \<open>Mesh changes and the mirrored hierarchy\<close>

lemma removeMeshIfPresent_fields [simp]:
  "s_scaleRotate (removeMeshIfPresent vp) = s_scaleRotate vp"
  "s_h_scaleRotate (removeMeshIfPresent vp) = s_h_scaleRotate vp"
  "s_translate (removeMeshIfPresent vp) = s_translate vp"
  "s_h_translate (removeMeshIfPresent vp) = s_h_translate vp"
  "renderer (removeMeshIfPresent vp) = renderer vp"
  "model_mesh (removeMeshIfPresent vp) = model_mesh vp"
  "ATOMIC_OPERATION (removeMeshIfPresent vp) = ATOMIC_OPERATION vp"
  "upVector (removeMeshIfPresent vp) = upVector vp"
  by (simp_all add: removeMeshIfPresent_def split: option.split)


lemma update_renderer:
  "renderer vp = Some calls \<Longrightarrow>
   renderer (update vp) = (if 0 < ATOMIC_OPERATION vp then Some calls else Some (calls @ frame vp))"
  by (simp add: update_def atomicOperationUnderway_def)

lemma changeMesh_with_payload:
  assumes "renderer vp = Some calls" "model_mesh vp = Some p"
  shows "changeMesh vp = Returns () (fields (changeMesh vp))"
    and "s_scaleRotate (fields (changeMesh vp)) =
           lookAt ((s_scaleRotate vp)
                     \<lparr> scale := Vector3 (js_div 1 (radius (geometry_boundingSphere (payload_mesh p))))
                                        (js_div 1 (radius (geometry_boundingSphere (payload_mesh p))))
                                        (js_div 1 (radius (geometry_boundingSphere (payload_mesh p)))),
                       up := payload_up p \<rparr>) (payload_front p)"
    and "s_h_scaleRotate (fields (changeMesh vp)) =
           lookAt ((s_h_scaleRotate vp)
                     \<lparr> scale := Vector3 (js_div 1 (radius (geometry_boundingSphere (payload_mesh p))))
                                        (js_div 1 (radius (geometry_boundingSphere (payload_mesh p))))
                                        (js_div 1 (radius (geometry_boundingSphere (payload_mesh p)))),
                       up := payload_up p \<rparr>) (payload_front p)"
    and "s_translate (fields (changeMesh vp)) =
           (s_translate vp)\<lparr> position := multiplyScalar (center (geometry_boundingSphere (payload_mesh p))) (-1) \<rparr>"
    and "s_h_translate (fields (changeMesh vp)) =
           (s_h_translate vp)\<lparr> position := multiplyScalar (center (geometry_boundingSphere (payload_mesh p))) (-1) \<rparr>"
    and "upVector (fields (changeMesh vp)) = upVector vp"
    and "renderer (fields (changeMesh vp)) =
           (if 0 < ATOMIC_OPERATION vp then Some calls else Some (calls @ frame vp))"
  using assms
  by (simp_all add: changeMesh_def Let_def lookAt_def fields_def update_renderer
      removeMeshIfPresent_def width_def height_def
      frame_def pip_pass_def pipBounds_def split: option.split)



lemma changeMesh_without_payload:
  "model_mesh vp = None \<Longrightarrow>
     s_scaleRotate (fields (changeMesh vp)) = s_scaleRotate vp \<and>
     s_h_scaleRotate (fields (changeMesh vp)) = s_h_scaleRotate vp \<and>
     s_translate (fields (changeMesh vp)) = s_translate vp \<and>
     s_h_translate (fields (changeMesh vp)) = s_h_translate vp"
  by (simp add: changeMesh_def fields_def Let_def split: option.split)

lemma changeMesh_throws:
  "renderer vp = None \<Longrightarrow> changeMesh vp = Throws TypeError vp"
  by (simp add: changeMesh_def)

lemma changeMesh_frame:
  assumes "renderer vp = Some calls" "model_mesh vp = Some p"
  shows "frame (fields (changeMesh vp)) = frame vp"
  using assms
  by (intro frame_cong)
     (simp_all add: changeMesh_def Let_def fields_def removeMeshIfPresent_def split: option.split)

lemma changeMesh_requests_render:
  assumes "renderer vp = Some calls" "model_mesh vp = Some p"
  shows "\<exists>vp0. changeMesh vp = Returns () (update vp0) \<and> renderer vp0 = Some calls"
proof (cases "isBufferGeometry (payload_mesh p)")
  case True
  with assms show ?thesis
    apply (simp add: changeMesh_def Let_def)
    apply (rule exI, rule conjI, rule refl)
    apply simp
    done
next
  case False
  with assms show ?thesis
    apply (simp add: changeMesh_def Let_def)
    apply (rule exI, rule conjI, rule refl)
    apply simp
    done
qed

text \<open>
  Claim C3. On a viewport that has its renderer and whose model holds a mesh payload,
  \<open>changeMesh\<close> returns; the scale of the primary and of the helper ScaleRotate node is
  then \<open>1 / radius\<close> of the mesh's bounding sphere on each axis (JavaScript's quotient),
  the position of the primary and of the helper Translate node is the sphere's centre
  times -1, and the call has ended with the render request \<open>update\<close>, made on a
  renderer that had received nothing since the call began: the renderer has then
  received the calls of one frame, unless an atomic operation is underway, in which case
  the request is swallowed as every render request is. For radius 2 and centre
  \<open>(1,0,0)\<close> the scale is 0.5 on each axis and the translation \<open>(-1,0,0)\<close>.
\<close>

theorem changeMesh_normalises_mesh:
  "(renderer vp = Some calls \<and> model_mesh vp = Some p \<longrightarrow>
      (\<exists>vp' s. changeMesh vp = Returns () vp' \<and>
         s = js_div 1 (radius (geometry_boundingSphere (payload_mesh p))) \<and>
         scale (s_scaleRotate vp') = Vector3 s s s \<and>
         scale (s_h_scaleRotate vp') = Vector3 s s s \<and>
         position (s_translate vp') =
           multiplyScalar (center (geometry_boundingSphere (payload_mesh p))) (-1) \<and>
         position (s_h_translate vp') =
           multiplyScalar (center (geometry_boundingSphere (payload_mesh p))) (-1) \<and>
         (\<exists>vp0. vp' = update vp0 \<and> renderer vp0 = Some calls) \<and>
         renderer vp' =
           (if atomicOperationUnderway vp then Some calls else Some (calls @ frame vp')))) \<and>
   (renderer vp = Some calls \<and> model_mesh vp = Some p \<and>
    radius (geometry_boundingSphere (payload_mesh p)) = 2 \<and>
    center (geometry_boundingSphere (payload_mesh p)) = Vector3 1 0 0 \<longrightarrow>
      (\<exists>vp'. changeMesh vp = Returns () vp' \<and>
         scale (s_scaleRotate vp') = Vector3 (Finite 0.5) (Finite 0.5) (Finite 0.5) \<and>
         scale (s_h_scaleRotate vp') = Vector3 (Finite 0.5) (Finite 0.5) (Finite 0.5) \<and>
         position (s_translate vp') = Vector3 (-1) 0 0 \<and>
         position (s_h_translate vp') = Vector3 (-1) 0 0))"
proof -
  define vp' where "vp' = fields (changeMesh vp)"
  define s where "s = js_div 1 (radius (geometry_boundingSphere (payload_mesh p)))"
  define t where "t = multiplyScalar (center (geometry_boundingSphere (payload_mesh p))) (-1)"
  have general:
    "changeMesh vp = Returns () vp' \<and>
     scale (s_scaleRotate vp') = Vector3 s s s \<and>
     scale (s_h_scaleRotate vp') = Vector3 s s s \<and>
     position (s_translate vp') = t \<and>
     position (s_h_translate vp') = t \<and>
     (\<exists>vp0. vp' = update vp0 \<and> renderer vp0 = Some calls) \<and>
     renderer vp' = (if atomicOperationUnderway vp then Some calls else Some (calls @ frame vp'))"
    if h: "renderer vp = Some calls" "model_mesh vp = Some p"
  proof -
    obtain vp0 where "changeMesh vp = Returns () (update vp0)" "renderer vp0 = Some calls"
      using changeMesh_requests_render [OF h] by blast
    then have req: "\<exists>vp0. vp' = update vp0 \<and> renderer vp0 = Some calls"
      unfolding vp'_def by auto
    show ?thesis
      using changeMesh_with_payload [OF h] changeMesh_frame [OF h] req
      by (simp add: vp'_def [symmetric] lookAt_def s_def t_def atomicOperationUnderway_def)
  qed
  have scenario: "js_div 1 2 = Finite 0.5" "multiplyScalar (Vector3 1 0 0) (-1) = Vector3 (-1) 0 0"
    by (simp_all add: js_div_def multiplyScalar_def)
  show ?thesis
  proof (intro conjI impI)
    assume "renderer vp = Some calls \<and> model_mesh vp = Some p"
    then show "\<exists>vp' s. changeMesh vp = Returns () vp' \<and>
         s = js_div 1 (radius (geometry_boundingSphere (payload_mesh p))) \<and>
         scale (s_scaleRotate vp') = Vector3 s s s \<and>
         scale (s_h_scaleRotate vp') = Vector3 s s s \<and>
         position (s_translate vp') =
           multiplyScalar (center (geometry_boundingSphere (payload_mesh p))) (-1) \<and>
         position (s_h_translate vp') =
           multiplyScalar (center (geometry_boundingSphere (payload_mesh p))) (-1) \<and>
         (\<exists>vp0. vp' = update vp0 \<and> renderer vp0 = Some calls) \<and>
         renderer vp' =
           (if atomicOperationUnderway vp then Some calls else Some (calls @ frame vp'))"
      using general unfolding s_def t_def by blast
  next
    assume a: "renderer vp = Some calls \<and> model_mesh vp = Some p \<and>
      radius (geometry_boundingSphere (payload_mesh p)) = 2 \<and>
      center (geometry_boundingSphere (payload_mesh p)) = Vector3 1 0 0"
    then have "s = Finite 0.5" "t = Vector3 (-1) 0 0"
      using scenario by (simp_all add: s_def t_def)
    with general a show "\<exists>vp'. changeMesh vp = Returns () vp' \<and>
         scale (s_scaleRotate vp') = Vector3 (Finite 0.5) (Finite 0.5) (Finite 0.5) \<and>
         scale (s_h_scaleRotate vp') = Vector3 (Finite 0.5) (Finite 0.5) (Finite 0.5) \<and>
         position (s_translate vp') = Vector3 (-1) 0 0 \<and>
         position (s_h_translate vp') = Vector3 (-1) 0 0"
      by auto
  qed
qed

theorem changeMesh_normalises_mesh_witness:
  "renderer (initialized 800 600\<lparr> model_mesh := Some example_payload \<rparr>) = Some [] \<and>
   model_mesh (initialized 800 600\<lparr> model_mesh := Some example_payload \<rparr>) = Some example_payload \<and>
   radius (geometry_boundingSphere (payload_mesh example_payload)) = 2 \<and>
   center (geometry_boundingSphere (payload_mesh example_payload)) = Vector3 1 0 0 \<and>
   (\<exists>vp'. changeMesh (initialized 800 600\<lparr> model_mesh := Some example_payload \<rparr>) = Returns () vp' \<and>
      scale (s_scaleRotate vp') = Vector3 (Finite 0.5) (Finite 0.5) (Finite 0.5) \<and>
      scale (s_h_scaleRotate vp') = Vector3 (Finite 0.5) (Finite 0.5) (Finite 0.5) \<and>
      position (s_translate vp') = Vector3 (-1) 0 0 \<and>
      position (s_h_translate vp') = Vector3 (-1) 0 0)"
proof -
  have h: "renderer (initialized 800 600\<lparr> model_mesh := Some example_payload \<rparr>) = Some []"
    "model_mesh (initialized 800 600\<lparr> model_mesh := Some example_payload \<rparr>) = Some example_payload"
    "radius (geometry_boundingSphere (payload_mesh example_payload)) = 2"
    "center (geometry_boundingSphere (payload_mesh example_payload)) = Vector3 1 0 0"
    by (simp_all add: initialized_def example_payload_def)
  from changeMesh_normalises_mesh
         [of "initialized 800 600\<lparr> model_mesh := Some example_payload \<rparr>" "[]" example_payload] h
  show ?thesis by blast
qed


lemma changeMesh_mirrored:
  assumes "mirrored vp"
  shows "mirrored (fields (changeMesh vp))"
proof (cases "renderer vp")
  case None
  with assms show ?thesis by (simp add: changeMesh_throws)
next
  case (Some calls)
  show ?thesis
  proof (cases "model_mesh vp")
    case None
    with assms changeMesh_without_payload [of vp] show ?thesis
      by (simp add: mirrored_def)
  next
    case (Some p)
    from changeMesh_with_payload(2-5) [OF \<open>renderer vp = Some calls\<close> Some] assms
    show ?thesis by (simp add: mirrored_def)
  qed
qed

lemma pointUp_mirrored:
  assumes "mirrored vp"
  shows "mirrored (fields (pointUp v vp))"
proof -
  define vp0 where "vp0 = startAtomicOperation vp"
  have m0: "mirrored vp0" using assms by (simp add: mirrored_def vp0_def)
  obtain c a angle where
    body: "pointUp_body v vp0 =
       Returns ()
         (if c = upVector vp0 then vp0
          else vp0\<lparr> upVector := c,
                   s_scaleRotate := rotateOnAxis (s_scaleRotate vp0) a angle,
                   s_h_scaleRotate := rotateOnAxis (s_h_scaleRotate vp0) a angle \<rparr>)"
    using pointUp_body_returns [of v vp0] by blast
  show ?thesis
    using m0 by (simp add: pointUp_def atomicOperation_def vp0_def [symmetric] body mirrored_def)
qed

lemma dispatch_mirrored: "mirrored vp \<Longrightarrow> mirrored (dispatch c vp)"
proof (cases c)
  case (NewMeshAvailable payload)
  assume "mirrored vp"
  then have "mirrored (vp\<lparr> model_mesh := payload \<rparr>)" by (simp add: mirrored_def)
  then show ?thesis by (simp add: NewMeshAvailable changeMesh_mirrored)
next
  case (PointUp v)
  assume "mirrored vp"
  then show ?thesis by (simp add: PointUp pointUp_mirrored)
qed

text \<open>
  Claim C4. The nodes as constructed mirror each other, and \<open>changeMesh\<close> and
  \<open>pointUp\<close> keep it so, whether they return or throw: after any sequence of mesh
  changes and \<open>pointUp\<close> calls the helper ScaleRotate node equals the primary one in
  scale, up vector, position and orientation (the \<open>lookAt\<close> and the rotations composed
  onto it), and the helper Translate node equals the primary one.
\<close>

theorem helper_hierarchy_mirrors_primary:
  "mirrored (initialized w h) \<and>
   mirrored (fold dispatch cs (initialized w h)) \<and>
   (mirrored vp \<longrightarrow>
      mirrored (fields (changeMesh vp)) \<and>
      mirrored (fields (pointUp v vp)) \<and>
      mirrored (fold dispatch cs vp))"
proof -
  have seq: "mirrored vp \<Longrightarrow> mirrored (fold dispatch cs vp)" for vp
    by (induction cs arbitrary: vp) (simp_all add: dispatch_mirrored)
  have init: "mirrored (initialized w h)"
    by (simp add: mirrored_def initialized_def)
  from seq init show ?thesis
    by (simp add: changeMesh_mirrored pointUp_mirrored)
qed

theorem helper_hierarchy_mirrors_primary_witness:
  "mirrored (initialized 800 600) \<and>
   mirrored (fold dispatch [NewMeshAvailable (Some example_payload), PointUp (Vector3 0 0 1),
                            NewMeshAvailable None, PointUp (Vector3 (-1) 0 0)]
               (initialized 800 600))"
  using helper_hierarchy_mirrors_primary
          [of 800 600 "[NewMeshAvailable (Some example_payload), PointUp (Vector3 0 0 1),
                         NewMeshAvailable None, PointUp (Vector3 (-1) 0 0)]"
              "initialized 800 600" "Vector3 0 0 1"]
  by blast

subsection \<open>The dirty bounding box\<close>

lemma updateCanvasBoundingBox_commute:
  "updateCanvasBoundingBox p \<circ> updateCanvasBoundingBox q =
   updateCanvasBoundingBox q \<circ> updateCanvasBoundingBox p"
  by (simp add: fun_eq_iff updateCanvasBoundingBox_def min.commute min.left_commute
      max.commute max.left_commute)

lemma updateCanvasBoundingBox_grows:
  "minX (ctxBox (updateCanvasBoundingBox p vp)) \<le> minX (ctxBox vp)"
  "minY (ctxBox (updateCanvasBoundingBox p vp)) \<le> minY (ctxBox vp)"
  "maxX (ctxBox vp) \<le> maxX (ctxBox (updateCanvasBoundingBox p vp))"
  "maxY (ctxBox vp) \<le> maxY (ctxBox (updateCanvasBoundingBox p vp))"
  by (simp_all add: updateCanvasBoundingBox_def)

lemma updateCanvasBoundingBox_covers:
  "minX (ctxBox (updateCanvasBoundingBox p vp)) \<le> px p"
  "minY (ctxBox (updateCanvasBoundingBox p vp)) \<le> py p"
  "px p \<le> maxX (ctxBox (updateCanvasBoundingBox p vp))"
  "py p \<le> maxY (ctxBox (updateCanvasBoundingBox p vp))"
  by (simp_all add: updateCanvasBoundingBox_def)

lemma fold_box_grows:
  "minX (ctxBox (fold updateCanvasBoundingBox ps vp)) \<le> minX (ctxBox vp) \<and>
   minY (ctxBox (fold updateCanvasBoundingBox ps vp)) \<le> minY (ctxBox vp) \<and>
   maxX (ctxBox vp) \<le> maxX (ctxBox (fold updateCanvasBoundingBox ps vp)) \<and>
   maxY (ctxBox vp) \<le> maxY (ctxBox (fold updateCanvasBoundingBox ps vp))"
proof (induction ps arbitrary: vp)
  case Nil
  show ?case by simp
next
  case (Cons p ps)
  from Cons.IH [of "updateCanvasBoundingBox p vp"]
       updateCanvasBoundingBox_grows [where p = p and vp = vp]
  show ?case by simp
qed

lemma fold_box_covers:
  "p \<in> set ps \<Longrightarrow>
   minX (ctxBox (fold updateCanvasBoundingBox ps vp)) \<le> px p \<and>
   px p \<le> maxX (ctxBox (fold updateCanvasBoundingBox ps vp)) \<and>
   minY (ctxBox (fold updateCanvasBoundingBox ps vp)) \<le> py p \<and>
   py p \<le> maxY (ctxBox (fold updateCanvasBoundingBox ps vp))"
proof (induction ps arbitrary: vp)
  case Nil
  then show ?case by simp
next
  case (Cons q qs)
  show ?case
  proof (cases "p = q")
    case True
    from fold_box_grows [of qs "updateCanvasBoundingBox q vp"]
         updateCanvasBoundingBox_covers [where p = q and vp = vp]
    show ?thesis unfolding True by simp
  next
    case False
    with Cons.prems have "p \<in> set qs" by simp
    from Cons.IH [OF this, of "updateCanvasBoundingBox q vp"] show ?thesis by simp
  qed
qed

text \<open>
  Claim C8. Folding a sequence of points into the dirty bounding box with
  \<open>updateCanvasBoundingBox\<close>, from any box, gives a box that contains every point of the
  sequence; one fold never shrinks the box, and neither does the whole sequence; and two
  sequences that are permutations of each other give the same viewport, hence the same
  box.
\<close>

theorem dirty_box_fold:
  "(\<forall>p \<in> set ps.
      minX (ctxBox (fold updateCanvasBoundingBox ps vp)) \<le> px p \<and>
      px p \<le> maxX (ctxBox (fold updateCanvasBoundingBox ps vp)) \<and>
      minY (ctxBox (fold updateCanvasBoundingBox ps vp)) \<le> py p \<and>
      py p \<le> maxY (ctxBox (fold updateCanvasBoundingBox ps vp))) \<and>
   (minX (ctxBox (updateCanvasBoundingBox q vp)) \<le> minX (ctxBox vp) \<and>
    minY (ctxBox (updateCanvasBoundingBox q vp)) \<le> minY (ctxBox vp) \<and>
    maxX (ctxBox vp) \<le> maxX (ctxBox (updateCanvasBoundingBox q vp)) \<and>
    maxY (ctxBox vp) \<le> maxY (ctxBox (updateCanvasBoundingBox q vp))) \<and>
   (minX (ctxBox (fold updateCanvasBoundingBox ps vp)) \<le> minX (ctxBox vp) \<and>
    minY (ctxBox (fold updateCanvasBoundingBox ps vp)) \<le> minY (ctxBox vp) \<and>
    maxX (ctxBox vp) \<le> maxX (ctxBox (fold updateCanvasBoundingBox ps vp)) \<and>
    maxY (ctxBox vp) \<le> maxY (ctxBox (fold updateCanvasBoundingBox ps vp))) \<and>
   (mset ps = mset qs \<longrightarrow>
      fold updateCanvasBoundingBox ps vp = fold updateCanvasBoundingBox qs vp)"
proof -
  have perm: "fold updateCanvasBoundingBox ps vp = fold updateCanvasBoundingBox qs vp"
    if "mset ps = mset qs"
    using fold_multiset_equiv [of ps updateCanvasBoundingBox qs, OF updateCanvasBoundingBox_commute that]
    by simp
  from perm fold_box_covers [of _ ps vp] fold_box_grows [of ps vp]
       updateCanvasBoundingBox_grows [where p = q and vp = vp]
  show ?thesis by blast
qed

theorem dirty_box_fold_witness:
  "mset [Point 10 20, Point 5 40] = mset [Point 5 40, Point 10 20] \<and>
   fold updateCanvasBoundingBox [Point 10 20, Point 5 40] (initialized 800 600) =
     fold updateCanvasBoundingBox [Point 5 40, Point 10 20] (initialized 800 600) \<and>
   minX (ctxBox (fold updateCanvasBoundingBox [Point 10 20, Point 5 40] (initialized 800 600))) \<le> 10 \<and>
   10 \<le> maxX (ctxBox (fold updateCanvasBoundingBox [Point 10 20, Point 5 40] (initialized 800 600))) \<and>
   minY (ctxBox (fold updateCanvasBoundingBox [Point 10 20, Point 5 40] (initialized 800 600))) \<le> 40 \<and>
   40 \<le> maxY (ctxBox (fold updateCanvasBoundingBox [Point 10 20, Point 5 40] (initialized 800 600)))"
proof -
  have m: "mset [Point 10 20, Point 5 40] = mset [Point 5 40, Point 10 20]" by simp
  note inst = dirty_box_fold [of "[Point 10 20, Point 5 40]" "initialized 800 600" "Point 10 20"
                                "[Point 5 40, Point 10 20]"]
  from inst m have eq:
    "fold updateCanvasBoundingBox [Point 10 20, Point 5 40] (initialized 800 600) =
     fold updateCanvasBoundingBox [Point 5 40, Point 10 20] (initialized 800 600)"
    by blast
  from inst have cov: "\<forall>p \<in> set [Point 10 20, Point 5 40].
      minX (ctxBox (fold updateCanvasBoundingBox [Point 10 20, Point 5 40] (initialized 800 600))) \<le> px p \<and>
      px p \<le> maxX (ctxBox (fold updateCanvasBoundingBox [Point 10 20, Point 5 40] (initialized 800 600))) \<and>
      minY (ctxBox (fold updateCanvasBoundingBox [Point 10 20, Point 5 40] (initialized 800 600))) \<le> py p \<and>
      py p \<le> maxY (ctxBox (fold updateCanvasBoundingBox [Point 10 20, Point 5 40] (initialized 800 600)))"
    by blast
  have a: "Point 10 20 \<in> set [Point 10 20, Point 5 40]" "Point 5 40 \<in> set [Point 10 20, Point 5 40]"
    by simp_all
  from cov [rule_format, OF a(1)] cov [rule_format, OF a(2)] m eq
  show ?thesis by simp
qed

subsection \<open>Picking\<close>

text \<open>
  Claim C9. For every pair of screen coordinates, \<open>getIntersects\<close> on \<open>null\<close> or on an
  empty array returns the empty list and leaves every field of the viewport, the ray
  included, as it was; the result does not depend on the library routines.
\<close>

theorem getIntersects_nothing_to_hit:
  "getIntersects T x y Null vp = ([], vp) \<and> getIntersects T x y (Array []) vp = ([], vp)"
  by (simp add: getIntersects_def)

text \<open>
  Claim C10. For a landmark view without a symbol, \<open>lmViewVisible\<close> returns false: it
  does not throw, it leaves the viewport (and so its ray) untouched, and the answer does
  not depend on the projection or intersection routines.
\<close>

theorem lmViewVisible_without_symbol:
  "lmViewVisible T \<lparr> symbol = None \<rparr> vp = Returns False vp"
  by (simp add: lmViewVisible_def)

subsection \<open>The camera toggle and the picture-in-picture pass\<close>

lemma clearCanvas_fields [simp]:
  "s_camera (clearCanvas vp) = s_camera vp"
  "showConnectivity (clearCanvas vp) = showConnectivity vp"
  "pipCanvas_display (clearCanvas vp) = pipCanvas_display vp"
  "changePip_listeners (clearCanvas vp) = changePip_listeners vp"
  "renderer (clearCanvas vp) = renderer vp"
  "ATOMIC_OPERATION (clearCanvas vp) = ATOMIC_OPERATION vp"
  "containerWidth (clearCanvas vp) = containerWidth vp"
  "containerHeight (clearCanvas vp) = containerHeight vp"
  by (simp_all add: clearCanvas_def Let_def)

lemma toggleCamera_fields:
  "s_camera (toggleCamera vp) = (if s_camera vp = S_pCam then S_oCam else S_pCam)"
  "pipCanvas_display (toggleCamera vp) = (if s_camera vp = S_pCam then DisplayUnset else DisplayNone)"
  "changePip_listeners (toggleCamera vp) =
     (if s_camera vp = S_pCam then changePip_listeners vp + 1 else 0)"
  "showConnectivity (toggleCamera vp) = showConnectivity vp"
  "containerWidth (toggleCamera vp) = containerWidth vp"
  "containerHeight (toggleCamera vp) = containerHeight vp"
  "ATOMIC_OPERATION (toggleCamera vp) = ATOMIC_OPERATION vp"
  by (simp_all add: toggleCamera_def Let_def)

lemma toggleCamera_renderer:
  "renderer vp = Some calls \<Longrightarrow>
   renderer (toggleCamera vp) =
     (if atomicOperationUnderway vp then Some calls else Some (calls @ frame (toggleCamera vp)))"
proof -
  assume r: "renderer vp = Some calls"
  define vp1 where "vp1 = clearCanvas
     (if s_camera vp = S_pCam
      then vp\<lparr> changePip_listeners := changePip_listeners vp + 1,
               s_camera := S_oCam, pipCanvas_display := DisplayUnset \<rparr>
      else vp\<lparr> changePip_listeners := 0,
               s_camera := S_pCam, pipCanvas_display := DisplayNone \<rparr>)"
  have t: "toggleCamera vp = update vp1"
    by (simp add: toggleCamera_def Let_def vp1_def)
  have r1: "renderer vp1 = Some calls" "ATOMIC_OPERATION vp1 = ATOMIC_OPERATION vp"
    using r by (simp_all add: vp1_def)
  have "frame (update vp1) = frame vp1"
    by (rule frame_cong) simp_all
  with update_renderer [OF r1(1)] r1(2) show ?thesis
    by (simp add: t atomicOperationUnderway_def)
qed

lemma pip_pass_calls:
  "pip_pass vp =
     [SetClearColor CLEAR_COLOUR_PIP 1,
      SetViewport (width vp - 300) (height vp - 300) 300 300,
      SetScissor (width vp - 300) (height vp - 300) 300 300,
      EnableScissorTest True,
      Clear,
      Render Scene S_oCamZoom]
     @ (if showConnectivity vp then [ClearDepth, Render SceneHelpers S_oCamZoom] else [])
     @ [SetClearColor CLEAR_COLOUR 1]"
  by (simp add: pip_pass_def pipBounds_def PIP_WIDTH_def PIP_HEIGHT_def Let_def)

text \<open>
  Claim C6, as amended. From the perspective camera, \<open>toggleCamera\<close> makes the
  orthographic camera the active one, removes \<open>display: none\<close> from the PIP canvas and
  adds a \<open>changePip\<close> handler; its closing \<open>update\<close>, when the renderer exists and no
  atomic operation is underway, draws a frame of the toggled state. Every frame drawn
  while the orthographic camera is active is the main pass followed by the PIP pass: PIP
  clear colour, viewport and scissor \<open>(w - 300, h - 300, 300, 300)\<close>, clear, the scene
  drawn with the zoom camera, the helper scene too when connectivity is shown, and the
  main clear colour set again. From the orthographic camera, \<open>toggleCamera\<close> makes the
  perspective camera active, sets \<open>display: none\<close> and leaves no \<open>changePip\<close> handler. A
  frame drawn while the perspective camera is active is the main pass alone. The PIP
  rectangle always ends at the right edge of the canvas. Read as WebGL reads a viewport,
  from the lower-left corner upwards, it covers the top 300 rows: it is anchored at the
  top-right corner. It would be anchored at the bottom-right corner only if the renderer
  counted \<open>y\<close> from the top.
\<close>

theorem toggleCamera_picture_in_picture:
  "(s_camera vp = S_pCam \<longrightarrow>
      s_camera (toggleCamera vp) = S_oCam \<and>
      pipCanvas_display (toggleCamera vp) = DisplayUnset \<and>
      changePip_listeners (toggleCamera vp) = changePip_listeners vp + 1 \<and>
      (renderer vp = Some calls \<and> ATOMIC_OPERATION vp = 0 \<longrightarrow>
         renderer (toggleCamera vp) = Some (calls @ frame (toggleCamera vp)))) \<and>
   (s_camera vp = S_oCam \<longrightarrow>
      frame vp =
        [SetViewport 0 0 (width vp) (height vp),
         SetScissor 0 0 (width vp) (height vp),
         EnableScissorTest True,
         Clear,
         Render Scene S_oCam]
        @ (if showConnectivity vp then [ClearDepth, Render SceneHelpers S_oCam] else [])
        @ [SetClearColor CLEAR_COLOUR_PIP 1,
           SetViewport (width vp - 300) (height vp - 300) 300 300,
           SetScissor (width vp - 300) (height vp - 300) 300 300,
           EnableScissorTest True,
           Clear,
           Render Scene S_oCamZoom]
        @ (if showConnectivity vp then [ClearDepth, Render SceneHelpers S_oCamZoom] else [])
        @ [SetClearColor CLEAR_COLOUR 1] \<and>
      s_camera (toggleCamera vp) = S_pCam \<and>
      pipCanvas_display (toggleCamera vp) = DisplayNone \<and>
      changePip_listeners (toggleCamera vp) = 0) \<and>
   (s_camera vp = S_pCam \<longrightarrow>
      frame vp =
        [SetViewport 0 0 (width vp) (height vp),
         SetScissor 0 0 (width vp) (height vp),
         EnableScissorTest True,
         Clear,
         Render Scene S_pCam]
        @ (if showConnectivity vp then [ClearDepth, Render SceneHelpers S_pCam] else [])) \<and>
   pipBounds vp =
     \<lparr> bx = width vp - 300, by' = height vp - 300, bwidth = 300, bheight = 300 \<rparr> \<and>
   on_screen LowerLeft (height vp) (pipBounds vp) =
     Screen_rect (width vp - 300) 0 (width vp) 300 \<and>
   on_screen UpperLeft (height vp) (pipBounds vp) =
     Screen_rect (width vp - 300) (height vp - 300) (width vp) (height vp)"
proof (intro conjI impI)
  assume "renderer vp = Some calls \<and> ATOMIC_OPERATION vp = 0"
  then show "renderer (toggleCamera vp) = Some (calls @ frame (toggleCamera vp))"
    using toggleCamera_renderer [of vp calls] by (simp add: atomicOperationUnderway_def)
next
  assume "s_camera vp = S_oCam"
  then show "frame vp =
        [SetViewport 0 0 (width vp) (height vp),
         SetScissor 0 0 (width vp) (height vp),
         EnableScissorTest True,
         Clear,
         Render Scene S_oCam]
        @ (if showConnectivity vp then [ClearDepth, Render SceneHelpers S_oCam] else [])
        @ [SetClearColor CLEAR_COLOUR_PIP 1,
           SetViewport (width vp - 300) (height vp - 300) 300 300,
           SetScissor (width vp - 300) (height vp - 300) 300 300,
           EnableScissorTest True,
           Clear,
           Render Scene S_oCamZoom]
        @ (if showConnectivity vp then [ClearDepth, Render SceneHelpers S_oCamZoom] else [])
        @ [SetClearColor CLEAR_COLOUR 1]"
    by (simp add: frame_def pip_pass_calls Let_def)
qed (simp_all add: toggleCamera_fields frame_def Let_def on_screen_def pipBounds_def
      PIP_WIDTH_def PIP_HEIGHT_def)

theorem toggleCamera_picture_in_picture_witness:
  "s_camera (initialized 800 600) = S_pCam \<and>
   renderer (initialized 800 600) = Some [] \<and>
   ATOMIC_OPERATION (initialized 800 600) = 0 \<and>
   pipCanvas_display (toggleCamera (initialized 800 600)) = DisplayUnset \<and>
   changePip_listeners (toggleCamera (initialized 800 600)) = 1 \<and>
   s_camera (toggleCamera (initialized 800 600)) = S_oCam \<and>
   renderer (toggleCamera (initialized 800 600)) =
     Some [SetViewport 0 0 800 600, SetScissor 0 0 800 600, EnableScissorTest True, Clear,
           Render Scene S_oCam, ClearDepth, Render SceneHelpers S_oCam,
           SetClearColor CLEAR_COLOUR_PIP 1,
           SetViewport 500 300 300 300, SetScissor 500 300 300 300, EnableScissorTest True, Clear,
           Render Scene S_oCamZoom, ClearDepth, Render SceneHelpers S_oCamZoom,
           SetClearColor CLEAR_COLOUR 1] \<and>
   pipCanvas_display (toggleCamera (toggleCamera (initialized 800 600))) = DisplayNone \<and>
   changePip_listeners (toggleCamera (toggleCamera (initialized 800 600))) = 0 \<and>
   s_camera (toggleCamera (toggleCamera (initialized 800 600))) = S_pCam \<and>
   frame (toggleCamera (toggleCamera (initialized 800 600))) =
     [SetViewport 0 0 800 600, SetScissor 0 0 800 600, EnableScissorTest True, Clear,
      Render Scene S_pCam, ClearDepth, Render SceneHelpers S_pCam] \<and>
   on_screen LowerLeft 600 (pipBounds (toggleCamera (initialized 800 600))) =
     Screen_rect 500 0 800 300 \<and>
   on_screen UpperLeft 600 (pipBounds (toggleCamera (initialized 800 600))) =
     Screen_rect 500 300 800 600"
proof -
  define v0 where "v0 = initialized 800 600"
  define v1 where "v1 = toggleCamera v0"
  define v2 where "v2 = toggleCamera v1"
  have h0: "s_camera v0 = S_pCam" "renderer v0 = Some []" "ATOMIC_OPERATION v0 = 0"
    "changePip_listeners v0 = 0" "showConnectivity v0" "width v0 = 800" "height v0 = 600"
    by (simp_all add: v0_def initialized_def width_def height_def)
  note t0 = toggleCamera_picture_in_picture [of v0 "[]"]
  from t0 h0 have s1: "s_camera v1 = S_oCam" "pipCanvas_display v1 = DisplayUnset"
    "changePip_listeners v1 = 1" "renderer v1 = Some ([] @ frame v1)"
    unfolding v1_def by simp_all
  have e1: "showConnectivity v1" "width v1 = 800" "height v1 = 600"
    using h0 by (simp_all add: v1_def toggleCamera_fields width_def height_def)
  note t1 = toggleCamera_picture_in_picture [of v1 "[]"]
  from t1 s1(1) e1 have f1: "frame v1 =
     [SetViewport 0 0 800 600, SetScissor 0 0 800 600, EnableScissorTest True, Clear,
      Render Scene S_oCam, ClearDepth, Render SceneHelpers S_oCam,
      SetClearColor CLEAR_COLOUR_PIP 1,
      SetViewport 500 300 300 300, SetScissor 500 300 300 300, EnableScissorTest True, Clear,
      Render Scene S_oCamZoom, ClearDepth, Render SceneHelpers S_oCamZoom,
      SetClearColor CLEAR_COLOUR 1]"
    by simp
  from t1 s1(1) have s2: "s_camera v2 = S_pCam" "pipCanvas_display v2 = DisplayNone"
    "changePip_listeners v2 = 0"
    unfolding v2_def by simp_all
  have e2: "showConnectivity v2" "width v2 = 800" "height v2 = 600"
    using e1 by (simp_all add: v2_def toggleCamera_fields width_def height_def)
  note t2 = toggleCamera_picture_in_picture [of v2 "[]"]
  from t2 s2(1) e2 have f2: "frame v2 =
     [SetViewport 0 0 800 600, SetScissor 0 0 800 600, EnableScissorTest True, Clear,
      Render Scene S_pCam, ClearDepth, Render SceneHelpers S_pCam]"
    by simp
  from t1 have "on_screen LowerLeft (height v1) (pipBounds v1) =
      Screen_rect (width v1 - 300) 0 (width v1) 300"
    "on_screen UpperLeft (height v1) (pipBounds v1) =
      Screen_rect (width v1 - 300) (height v1 - 300) (width v1) (height v1)"
    by blast+
  with e1 have o: "on_screen LowerLeft 600 (pipBounds v1) = Screen_rect 500 0 800 300"
    "on_screen UpperLeft 600 (pipBounds v1) = Screen_rect 500 300 800 600"
    by simp_all
  from h0 s1 f1 s2 f2 o show ?thesis
    unfolding v2_def v1_def v0_def by simp
qed

text \<open>
  Claim C6 as it was stated puts the PIP rectangle at the bottom-right corner. In a
  container of 800 by 600 the PIP pass sets viewport and scissor to
  \<open>(500, 300, 300, 300)\<close>; with WebGL's lower-left origin that is the rectangle of the
  screen from row 0 to row 300, whose bottom edge is not the bottom edge 600 of the
  canvas.
\<close>

theorem pip_rectangle_counterexample:
  "s_camera (toggleCamera (initialized 800 600)) = S_oCam \<and>
   height (toggleCamera (initialized 800 600)) = 600 \<and>
   SetViewport 500 300 300 300 \<in> set (frame (toggleCamera (initialized 800 600))) \<and>
   SetScissor 500 300 300 300 \<in> set (frame (toggleCamera (initialized 800 600))) \<and>
   pipBounds (toggleCamera (initialized 800 600)) =
     \<lparr> bx = 500, by' = 300, bwidth = 300, bheight = 300 \<rparr> \<and>
   on_screen LowerLeft 600 (pipBounds (toggleCamera (initialized 800 600))) =
     Screen_rect 500 0 800 300 \<and>
   screen_top (on_screen LowerLeft 600 (pipBounds (toggleCamera (initialized 800 600)))) = 0 \<and>
   screen_bottom (on_screen LowerLeft 600 (pipBounds (toggleCamera (initialized 800 600)))) \<noteq> 600"
proof -
  define v1 where "v1 = toggleCamera (initialized 800 600)"
  have h: "s_camera v1 = S_oCam" "width v1 = 800" "height v1 = 600" "showConnectivity v1"
    by (simp_all add: v1_def toggleCamera_fields width_def height_def initialized_def)
  have b: "pipBounds v1 = \<lparr> bx = 500, by' = 300, bwidth = 300, bheight = 300 \<rparr>"
    using h by (simp add: pipBounds_def PIP_WIDTH_def PIP_HEIGHT_def)
  have f: "SetViewport 500 300 300 300 \<in> set (frame v1)"
    "SetScissor 500 300 300 300 \<in> set (frame v1)"
    using h by (simp_all add: frame_def pip_pass_def b)
  show ?thesis
    unfolding v1_def [symmetric] using h b f by (simp add: on_screen_def)
qed

subsection \<open>The picking ray\<close>

lemma or_zero_simps [simp]:
  "or_zero (Finite a) = Finite a"
  "or_zero PosInfinity = PosInfinity"
  "or_zero NegInfinity = NegInfinity"
  "or_zero NaN = Finite 0"
  by (simp_all add: or_zero_def)









end
